theory Spec2Isabelle
  imports Complex_Main "HOL-Library.AList"
begin

section \<open>Python values, series and data frames\<close>

text \<open>
  The conversions of \<^verbatim>\<open>src/preprocessing.py\<close> work on pandas data frames whose cells are
  arbitrary Python objects. A cell is modelled as a scalar (\<open>atom\<close>) or as a flat container of
  scalars, which is what the recipe data holds (lists of strings, lists of numbers);
  containers nested in containers are outside the model. A timestamp is seen through the
  four calendar fields the code reads with \<^verbatim>\<open>.dt\<close>. \<open>ANone\<close>, \<open>ANaN\<close> and \<open>ANaT\<close> are the
  absent values. An integer and the float of the same value are different cells
  (\<open>AInt 0\<close>, \<open>AFloat 0\<close>), so that what pandas does to a column it builds (a missing value
  becomes \<^verbatim>\<open>NaN\<close> next to numbers, integers become floats next to \<^verbatim>\<open>NaN\<close>) can be told.
\<close>

datatype timestamp =
  Timestamp (ts_year: int) (ts_month: int) (ts_day: int) (ts_dayofweek: int)

datatype atom =
    ANone
  | ANaN
  | ANaT
  | ABool bool
  | AInt int
  | AFloat rat
  | AStr string
  | ATimestamp timestamp

datatype pyval =
    Atom atom
  | PList "atom list"
  | PTuple "atom list"
  | PDict "(atom \<times> atom) list"

text \<open>
  Exceptions. \<open>NameCollision dupes\<close> is the \<^verbatim>\<open>ValueError\<close> that
  \<^verbatim>\<open>split_nutrition_columns\<close> raises itself, whose message prints the list \<^verbatim>\<open>dupes\<close>;
  \<open>Raised e\<close> is an exception of class \<open>e\<close> raised inside a library call and not caught.
\<close>

datatype exn =
  ValueError | SyntaxError | TypeError | MemoryError | RecursionError | AttributeError | KeyError

datatype error = NameCollision "string list" | Raised exn

text \<open>
  A series is a column: its dtype and its cells in row order. A data frame is its row index
  and its named columns in column order. The frames the loader hands over have no column
  name twice (\<^verbatim>\<open>pd.read_csv\<close> renames a repeated name) and one cell per row in each column
  (\<open>well_formed\<close> below); where a name stands twice, the functions below read and write the
  first column of that name, which is not what pandas does.
\<close>

datatype dtype = ObjectDtype | BoolDtype | IntDtype | Float64 | Datetime64 | Category

type_synonym series = "dtype \<times> pyval list"

record dataframe =
  df_index :: "atom list"
  df_columns :: "(string \<times> series) list"

text \<open>
  What the code takes from its libraries and this development does not redefine. A pandas
  function that builds a column over the rows of its argument answers with a dtype and a
  cell for each position (\<open>answer\<close>); the cell at a position may depend on the whole column
  handed in, not only on the cell at that position.
  \<^item> \<open>literal_eval\<close>: \<^verbatim>\<open>ast.literal_eval\<close> on a string, the parsed value or the exception
    it raises;
  \<^item> \<open>pd_to_datetime s errors\<close>: \<^verbatim>\<open>pd.to_datetime(s, errors=...)\<close>, its answer or the
    exception it raises. With \<^verbatim>\<open>errors="coerce"\<close> the answer is a \<^verbatim>\<open>datetime64\<close> column on
    most inputs, but not on all: on dates with different UTC offsets pandas 2 answers with
    an \<^verbatim>\<open>object\<close> column;
  \<^item> \<open>pd_column\<close>: the column \<^verbatim>\<open>pd.DataFrame(rows, ...)\<close> builds from the entries that the
    rows have at one place; pandas infers one dtype for the column from all of them;
  \<^item> \<open>pd_astype_category\<close>: the cells of \<^verbatim>\<open>s.astype("category")\<close>, or the exception it
    raises; pandas computes the categories from the whole column and gives every cell as
    its category;
  \<^item> \<open>empty_array_raises\<close>: whether asking for the truth value of an empty NumPy array
    raises: it is \<^verbatim>\<open>False\<close> with a deprecation warning before NumPy 2.2 and a
    \<^verbatim>\<open>ValueError\<close> from 2.2 on.
\<close>

type_synonym answer = "dtype \<times> (nat \<Rightarrow> pyval)"

record pylib =
  literal_eval :: "string \<Rightarrow> exn + pyval"
  pd_to_datetime :: "series \<Rightarrow> string \<Rightarrow> exn + answer"
  pd_column :: "pyval list \<Rightarrow> answer"
  pd_astype_category :: "series \<Rightarrow> exn + (nat \<Rightarrow> pyval)"
  empty_array_raises :: bool

definition series_of :: "nat \<Rightarrow> answer \<Rightarrow> series" where
  \<comment> \<open>the column of \<open>n\<close> rows that an answer of the library stands for\<close>
  "series_of n a = (fst a, map (snd a) [0..<n])"

definition NUTRITION_COLS :: "string list" where
  "NUTRITION_COLS =
     [''calories'', ''total_fat'', ''sugar'', ''sodium'', ''protein'', ''saturated_fat'',
      ''carbohydrates'']"

definition DEFAULT_LIST_LIKE_COLS :: "string list" where
  "DEFAULT_LIST_LIKE_COLS = [''tags'', ''ingredients'', ''steps'', ''nutrition'']"

subsection \<open>Data frame primitives\<close>

definition has_column :: "dataframe \<Rightarrow> string \<Rightarrow> bool" where
  \<comment> \<open>\<^verbatim>\<open>col in df.columns\<close>\<close>
  "has_column df col = (col \<in> set (map fst (df_columns df)))"

definition getitem :: "dataframe \<Rightarrow> string \<Rightarrow> series option" where
  \<comment> \<open>\<^verbatim>\<open>df[col]\<close>; \<open>None\<close> exactly when \<^verbatim>\<open>col not in df.columns\<close>\<close>
  "getitem df col = map_of (df_columns df) col"

definition setitem :: "dataframe \<Rightarrow> string \<Rightarrow> series \<Rightarrow> dataframe" where
  \<comment> \<open>\<^verbatim>\<open>df[col] = s\<close> for a series \<open>s\<close> over the index of \<open>df\<close>: overwrites the column in
      place, or appends it on the right\<close>
  "setitem df col s = df\<lparr>df_columns := AList.update col s (df_columns df)\<rparr>"

definition concat_axis1 :: "dataframe \<Rightarrow> (string \<times> series) list \<Rightarrow> dataframe" where
  \<comment> \<open>\<^verbatim>\<open>pd.concat([df, other], axis=1)\<close> for a frame \<open>other\<close> over the same index\<close>
  "concat_axis1 df other = df\<lparr>df_columns := df_columns df @ other\<rparr>"

definition drop_column :: "dataframe \<Rightarrow> string \<Rightarrow> dataframe" where
  \<comment> \<open>\<^verbatim>\<open>df.drop(columns=[col])\<close>\<close>
  "drop_column df col = df\<lparr>df_columns := filter (\<lambda>c. fst c \<noteq> col) (df_columns df)\<rparr>"

fun apply_cells :: "(pyval \<Rightarrow> error + pyval) \<Rightarrow> pyval list \<Rightarrow> error + pyval list" where
  "apply_cells f [] = Inr []"
| "apply_cells f (x # xs) =
     (case f x of
        Inl e \<Rightarrow> Inl e
      | Inr y \<Rightarrow> (case apply_cells f xs of Inl e \<Rightarrow> Inl e | Inr ys \<Rightarrow> Inr (y # ys)))"

definition apply_series :: "(pyval \<Rightarrow> error + pyval) \<Rightarrow> series \<Rightarrow> error + series" where
  \<comment> \<open>\<^verbatim>\<open>s.apply(f)\<close> for an \<open>f\<close> that returns lists and \<^verbatim>\<open>None\<close>: cell by cell in row order,
      the first exception aborts the call; such results make an \<^verbatim>\<open>object\<close> column. On a
      series without rows pandas does not call \<open>f\<close> and answers with an empty series of the
      same dtype\<close>
  "apply_series f s =
     (if snd s = [] then Inr s
      else case apply_cells f (snd s) of Inl e \<Rightarrow> Inl e | Inr ys \<Rightarrow> Inr (ObjectDtype, ys))"

section \<open>Internal helpers\<close>

fun is_list :: "pyval \<Rightarrow> bool" where
  "is_list (PList xs) = True"
| "is_list v = False"

fun is_dict :: "pyval \<Rightarrow> bool" where
  "is_dict (PDict kvs) = True"
| "is_dict v = False"

fun atom_isna :: "atom \<Rightarrow> bool" where
  "atom_isna ANone = True"
| "atom_isna ANaN = True"
| "atom_isna ANaT = True"
| "atom_isna a = False"

text \<open>
  \<^verbatim>\<open>if pd.isna(x):\<close>. On a scalar \<^verbatim>\<open>pd.isna\<close> answers with a bool. On a list it answers
  with a NumPy array of bools, one per entry, and the \<^verbatim>\<open>if\<close> then asks for the truth value
  of that array: the entry's own answer for one entry, a \<^verbatim>\<open>ValueError\<close> (ambiguous truth
  value) for two or more. Tuples and dicts are neither scalars nor array-likes for
  \<^verbatim>\<open>pd.isna\<close>, which answers \<^verbatim>\<open>False\<close>.
\<close>

fun isna_truth :: "pylib \<Rightarrow> pyval \<Rightarrow> exn + bool" where
  "isna_truth lib (Atom a) = Inr (atom_isna a)"
| "isna_truth lib (PList []) = (if empty_array_raises lib then Inl ValueError else Inr False)"
| "isna_truth lib (PList [a]) = Inr (atom_isna a)"
| "isna_truth lib (PList (a # b # xs)) = Inl ValueError"
| "isna_truth lib (PTuple xs) = Inr False"
| "isna_truth lib (PDict kvs) = Inr False"

definition safe_literal_eval :: "pylib \<Rightarrow> pyval \<Rightarrow> error + pyval" where
  "safe_literal_eval lib x =
     (if is_list x \<or> is_dict x then Inr x
      else (case isna_truth lib x of
              Inl e \<Rightarrow> Inl (Raised e)
            | Inr na \<Rightarrow>
                if na then Inr x
                else (case x of
                        Atom (AStr s) \<Rightarrow>
                          (case literal_eval lib s of
                             Inr v \<Rightarrow> Inr v
                           | Inl e \<Rightarrow>
                               if e = ValueError \<or> e = SyntaxError then Inr x
                               else Inl (Raised e))
                      | _ \<Rightarrow> Inr x)))"

definition ensure_list_or_none :: "pylib \<Rightarrow> pyval \<Rightarrow> error + pyval" where
  "ensure_list_or_none lib x =
     (case isna_truth lib x of
        Inl e \<Rightarrow> Inl (Raised e)
      | Inr na \<Rightarrow>
          if na then Inr (Atom ANone)
          else if is_list x then Inr x
          else (case safe_literal_eval lib x of
                  Inl e \<Rightarrow> Inl e
                | Inr parsed \<Rightarrow> Inr (if is_list parsed then parsed else Atom ANone)))"

fun pad_or_none :: "pyval \<Rightarrow> nat \<Rightarrow> atom list" where
  "pad_or_none (PList lst) n =
     (if length lst = n then lst
      else if length lst < n then lst @ replicate (n - length lst) ANone
      else take n lst)"
| "pad_or_none v n = replicate n ANone"

section \<open>Unit conversions\<close>

text \<open>
  Each conversion starts with \<^verbatim>\<open>df = _copy(df)\<close> and works on the copy. The functions of
  this section give the table the call returns (or the exception it raises) from the table
  it is given; the objects involved, and which of them is written to, are the subject of
  the section on object identity below. A loop that assigns into the copy returns the
  copy's last state together with the exception that stopped it, if any.
\<close>

fun list_like_loop :: "pylib \<Rightarrow> string list \<Rightarrow> dataframe \<Rightarrow> error option \<times> dataframe" where
  "list_like_loop lib [] df = (None, df)"
| "list_like_loop lib (col # rest) df =
     (case getitem df col of
        None \<Rightarrow> list_like_loop lib rest df
      | Some s \<Rightarrow>
          (case apply_series (ensure_list_or_none lib) s of
             Inl e \<Rightarrow> (Some e, df)
           | Inr s' \<Rightarrow> list_like_loop lib rest (setitem df col s')))"

definition returned :: "error option \<times> dataframe \<Rightarrow> error + dataframe" where
  "returned r = (case fst r of None \<Rightarrow> Inr (snd r) | Some e \<Rightarrow> Inl e)"

definition convert_list_like_columns :: "pylib \<Rightarrow> dataframe \<Rightarrow> string list \<Rightarrow> error + dataframe" where
  "convert_list_like_columns lib df list_like_cols = returned (list_like_loop lib list_like_cols df)"

definition frame_of_rows :: "pylib \<Rightarrow> atom list list \<Rightarrow> string list \<Rightarrow> (string \<times> series) list" where
  \<comment> \<open>\<^verbatim>\<open>pd.DataFrame(rows, columns=names, index=...)\<close> for rows of \<open>length names\<close> entries
      each: column \<open>k\<close> is what pandas makes of the entries at place \<open>k\<close> of all rows\<close>
  "frame_of_rows lib rows names =
     map (\<lambda>k. (names ! k, series_of (length rows) (pd_column lib (map (\<lambda>row. Atom (row ! k)) rows))))
       [0..<length names]"

definition split_nutrition_columns ::
  "pylib \<Rightarrow> dataframe \<Rightarrow> string \<Rightarrow> string list \<Rightarrow> bool \<Rightarrow> error + dataframe" where
  "split_nutrition_columns lib df nutrition_col output_cols drop_original =
     (case getitem df nutrition_col of
        None \<Rightarrow> Inr df
      | Some s \<Rightarrow>
          (case apply_series (ensure_list_or_none lib) s of
             Inl e \<Rightarrow> Inl e
           | Inr lsts \<Rightarrow>
               (let padded = map (\<lambda>x. pad_or_none x (length output_cols)) (snd lsts);
                    nutri_df = frame_of_rows lib padded output_cols;
                    dupes = filter (has_column df) output_cols
                in if dupes \<noteq> [] then Inl (NameCollision dupes)
                   else (let out = concat_axis1 df nutri_df
                         in Inr (if drop_original \<and> has_column out nutrition_col
                                 then drop_column out nutrition_col else out)))))"

definition to_datetime :: "pylib \<Rightarrow> series \<Rightarrow> error + series" where
  \<comment> \<open>\<^verbatim>\<open>pd.to_datetime(s, errors="coerce")\<close>\<close>
  "to_datetime lib s =
     (case pd_to_datetime lib s ''coerce'' of
        Inl e \<Rightarrow> Inl (Raised e)
      | Inr a \<Rightarrow> Inr (series_of (length (snd s)) a))"

fun is_timestamp :: "pyval \<Rightarrow> bool" where
  "is_timestamp (Atom (ATimestamp t)) = True"
| "is_timestamp v = False"

fun part_cell :: "bool \<Rightarrow> (timestamp \<Rightarrow> int) \<Rightarrow> pyval \<Rightarrow> pyval" where
  "part_cell as_float f (Atom (ATimestamp t)) =
     Atom (if as_float then AFloat (of_int (f t)) else AInt (f t))"
| "part_cell as_float f v = Atom ANaN"

definition part_series :: "(timestamp \<Rightarrow> int) \<Rightarrow> pyval list \<Rightarrow> series" where
  \<comment> \<open>the values of \<^verbatim>\<open>.dt.year\<close> and its siblings on the cells of a \<^verbatim>\<open>datetime64\<close> column:
      integers when every cell is a timestamp, floats with \<^verbatim>\<open>NaN\<close> for \<^verbatim>\<open>NaT\<close> otherwise\<close>
  "part_series f cells =
     (if list_all is_timestamp cells then (IntDtype, map (part_cell False f) cells)
      else (Float64, map (part_cell True f) cells))"

definition dt_part :: "(timestamp \<Rightarrow> int) \<Rightarrow> series \<Rightarrow> error + series" where
  \<comment> \<open>\<^verbatim>\<open>s.dt.year\<close> and its siblings: an \<^verbatim>\<open>AttributeError\<close> unless \<open>s\<close> is datetime-like\<close>
  "dt_part f s =
     (if fst s = Datetime64 then Inr (part_series f (snd s))
      else Inl (Raised AttributeError))"

definition add_part ::
  "string \<Rightarrow> (timestamp \<Rightarrow> int) \<Rightarrow> string \<Rightarrow> string list \<Rightarrow> error option \<times> dataframe
     \<Rightarrow> error option \<times> dataframe" where
  \<comment> \<open>\<^verbatim>\<open>if name in parts: df[name] = df[submitted_col].dt.name\<close>, skipped after an exception;
      the source column is in the frame whenever this is reached, so the \<^verbatim>\<open>KeyError\<close> is
      there for totality only\<close>
  "add_part name f submitted_col parts st =
     (case fst st of
        Some e \<Rightarrow> st
      | None \<Rightarrow>
          if name \<in> set parts then
            (case getitem (snd st) submitted_col of
               None \<Rightarrow> (Some (Raised KeyError), snd st)
             | Some s \<Rightarrow>
                 (case dt_part f s of
                    Inl e \<Rightarrow> (Some e, snd st)
                  | Inr p \<Rightarrow> (None, setitem (snd st) name p)))
          else st)"

definition temporal_body ::
  "pylib \<Rightarrow> dataframe \<Rightarrow> string \<Rightarrow> bool \<Rightarrow> string list \<Rightarrow> error option \<times> dataframe" where
  "temporal_body lib df submitted_col add_parts parts =
     (case getitem df submitted_col of
        None \<Rightarrow> (None, df)
      | Some s \<Rightarrow>
          (case to_datetime lib s of
             Inl e \<Rightarrow> (Some e, df)
           | Inr ts \<Rightarrow>
               (let df1 = setitem df submitted_col ts
                in if add_parts then
                     add_part ''dayofweek'' ts_dayofweek submitted_col parts
                       (add_part ''day'' ts_day submitted_col parts
                         (add_part ''month'' ts_month submitted_col parts
                           (add_part ''year'' ts_year submitted_col parts (None, df1))))
                   else (None, df1))))"

definition convert_temporal_columns ::
  "pylib \<Rightarrow> dataframe \<Rightarrow> string \<Rightarrow> bool \<Rightarrow> string list \<Rightarrow> error + dataframe" where
  "convert_temporal_columns lib df submitted_col add_parts parts =
     returned (temporal_body lib df submitted_col add_parts parts)"

definition astype_category :: "pylib \<Rightarrow> series \<Rightarrow> error + series" where
  \<comment> \<open>\<^verbatim>\<open>s.astype("category")\<close>\<close>
  "astype_category lib s =
     (case pd_astype_category lib s of
        Inl e \<Rightarrow> Inl (Raised e)
      | Inr g \<Rightarrow> Inr (series_of (length (snd s)) (Category, g)))"

definition category_body :: "pylib \<Rightarrow> dataframe \<Rightarrow> string \<Rightarrow> error option \<times> dataframe" where
  "category_body lib df contributor_col =
     (case getitem df contributor_col of
        None \<Rightarrow> (None, df)
      | Some s \<Rightarrow>
          (case astype_category lib s of
             Inl e \<Rightarrow> (Some e, df)
           | Inr s' \<Rightarrow> (None, setitem df contributor_col s')))"

definition convert_contributor_to_category ::
  "pylib \<Rightarrow> dataframe \<Rightarrow> string \<Rightarrow> error + dataframe" where
  "convert_contributor_to_category lib df contributor_col =
     returned (category_body lib df contributor_col)"

section \<open>Object identity\<close>

text \<open>
  To say that a call leaves the caller's table alone, data frames are objects in a store: a
  reference is a position in the list of all data frames allocated so far. \<^verbatim>\<open>df.copy()\<close>,
  \<^verbatim>\<open>pd.DataFrame(...)\<close>, \<^verbatim>\<open>pd.concat\<close> and \<^verbatim>\<open>df.drop\<close> allocate a new data frame;
  \<^verbatim>\<open>df[col] = ...\<close> writes to the object the variable \<^verbatim>\<open>df\<close> refers to. The cells themselves
  (Python lists) are shared between a frame and its copy, and no function of the module
  changes a list in place, so cells stay values.
\<close>

type_synonym ref = nat

type_synonym store = "dataframe list"

type_synonym 'a st_result = "(error + 'a) \<times> store"

definition new_frame :: "dataframe \<Rightarrow> store \<Rightarrow> ref \<times> store" where
  "new_frame d h = (length h, h @ [d])"

definition copy_st :: "ref \<Rightarrow> store \<Rightarrow> ref \<times> store" where
  \<comment> \<open>\<^verbatim>\<open>_copy(df)\<close>\<close>
  "copy_st r h = new_frame (h ! r) h"

definition assign_st :: "ref \<Rightarrow> error option \<times> dataframe \<Rightarrow> store \<Rightarrow> ref st_result" where
  \<comment> \<open>the assignments of a loop body, all to the object at \<open>r\<close>\<close>
  "assign_st r body h =
     ((case fst body of None \<Rightarrow> Inr r | Some e \<Rightarrow> Inl e), h[r := snd body])"

definition convert_list_like_columns_st ::
  "pylib \<Rightarrow> ref \<Rightarrow> string list \<Rightarrow> store \<Rightarrow> ref st_result" where
  "convert_list_like_columns_st lib r list_like_cols h =
     (case copy_st r h of
        (df, h1) \<Rightarrow> assign_st df (list_like_loop lib list_like_cols (h1 ! df)) h1)"

definition split_nutrition_columns_st ::
  "pylib \<Rightarrow> ref \<Rightarrow> string \<Rightarrow> string list \<Rightarrow> bool \<Rightarrow> store \<Rightarrow> ref st_result" where
  "split_nutrition_columns_st lib r nutrition_col output_cols drop_original h =
     (case copy_st r h of
        (df, h1) \<Rightarrow>
          (case getitem (h1 ! df) nutrition_col of
             None \<Rightarrow> (Inr df, h1)
           | Some s \<Rightarrow>
               (case apply_series (ensure_list_or_none lib) s of
                  Inl e \<Rightarrow> (Inl e, h1)
                | Inr lsts \<Rightarrow>
                    (let padded = map (\<lambda>x. pad_or_none x (length output_cols)) (snd lsts)
                     in case new_frame \<lparr>df_index = df_index (h1 ! df),
                                         df_columns = frame_of_rows lib padded output_cols\<rparr> h1 of
                          (nutri_df, h2) \<Rightarrow>
                            (let dupes = filter (has_column (h2 ! df)) output_cols
                             in if dupes \<noteq> [] then (Inl (NameCollision dupes), h2)
                                else (case new_frame
                                             (concat_axis1 (h2 ! df) (df_columns (h2 ! nutri_df)))
                                             h2 of
                                        (out, h3) \<Rightarrow>
                                          if drop_original \<and> has_column (h3 ! out) nutrition_col
                                          then (case new_frame
                                                       (drop_column (h3 ! out) nutrition_col) h3 of
                                                  (out', h4) \<Rightarrow> (Inr out', h4))
                                          else (Inr out, h3)))))))"

definition convert_temporal_columns_st ::
  "pylib \<Rightarrow> ref \<Rightarrow> string \<Rightarrow> bool \<Rightarrow> string list \<Rightarrow> store \<Rightarrow> ref st_result" where
  "convert_temporal_columns_st lib r submitted_col add_parts parts h =
     (case copy_st r h of
        (df, h1) \<Rightarrow>
          assign_st df (temporal_body lib (h1 ! df) submitted_col add_parts parts) h1)"

definition convert_contributor_to_category_st ::
  "pylib \<Rightarrow> ref \<Rightarrow> string \<Rightarrow> store \<Rightarrow> ref st_result" where
  "convert_contributor_to_category_st lib r contributor_col h =
     (case copy_st r h of
        (df, h1) \<Rightarrow> assign_st df (category_body lib (h1 ! df) contributor_col) h1)"

definition value_of :: "ref st_result \<Rightarrow> error + dataframe" where
  \<comment> \<open>the table a call returns: the frame its result refers to in the store it leaves\<close>
  "value_of res = (case fst res of Inl e \<Rightarrow> Inl e | Inr r \<Rightarrow> Inr (snd res ! r))"

section \<open>The conversion pipeline\<close>

record RecipeConversionConfig =
  list_like_cols :: "string list"
  nutrition_col :: string
  temporal_col :: string
  add_temporal_parts :: bool
  temporal_parts :: "string list"
  contributor_col :: string
  drop_original_nutrition :: bool

definition default_config :: RecipeConversionConfig where
  \<comment> \<open>\<^verbatim>\<open>RecipeConversionConfig()\<close>: every field at its declared default\<close>
  "default_config =
     \<lparr>list_like_cols = DEFAULT_LIST_LIKE_COLS,
      nutrition_col = ''nutrition'',
      temporal_col = ''submitted'',
      add_temporal_parts = True,
      temporal_parts = [''year'', ''month''],
      contributor_col = ''contributor_id'',
      drop_original_nutrition = False\<rparr>"

definition convert_recipes_for_univariate ::
  "pylib \<Rightarrow> dataframe \<Rightarrow> RecipeConversionConfig option \<Rightarrow> error + dataframe" where
  "convert_recipes_for_univariate lib df_recipes config =
     (let cfg = (case config of None \<Rightarrow> default_config | Some c \<Rightarrow> c)
      in case convert_list_like_columns lib df_recipes (list_like_cols cfg) of
           Inl e \<Rightarrow> Inl e
         | Inr df1 \<Rightarrow>
             (case (if has_column df1 (nutrition_col cfg)
                    then split_nutrition_columns lib df1 (nutrition_col cfg) NUTRITION_COLS
                           (drop_original_nutrition cfg)
                    else Inr df1) of
                Inl e \<Rightarrow> Inl e
              | Inr df2 \<Rightarrow>
                  (case convert_temporal_columns lib df2 (temporal_col cfg)
                          (add_temporal_parts cfg) (temporal_parts cfg) of
                     Inl e \<Rightarrow> Inl e
                   | Inr df3 \<Rightarrow> convert_contributor_to_category lib df3 (contributor_col cfg))))"

definition convert_recipes_for_univariate_st ::
  "pylib \<Rightarrow> ref \<Rightarrow> RecipeConversionConfig option \<Rightarrow> store \<Rightarrow> ref st_result" where
  "convert_recipes_for_univariate_st lib df_recipes config h =
     (let cfg = (case config of None \<Rightarrow> default_config | Some c \<Rightarrow> c)
      in case copy_st df_recipes h of
           (df, h0) \<Rightarrow>
             (case convert_list_like_columns_st lib df (list_like_cols cfg) h0 of
                (Inl e, h1) \<Rightarrow> (Inl e, h1)
              | (Inr df1, h1) \<Rightarrow>
                  (case (if has_column (h1 ! df1) (nutrition_col cfg)
                         then split_nutrition_columns_st lib df1 (nutrition_col cfg)
                                NUTRITION_COLS (drop_original_nutrition cfg) h1
                         else (Inr df1, h1)) of
                     (Inl e, h2) \<Rightarrow> (Inl e, h2)
                   | (Inr df2, h2) \<Rightarrow>
                       (case convert_temporal_columns_st lib df2 (temporal_col cfg)
                               (add_temporal_parts cfg) (temporal_parts cfg) h2 of
                          (Inl e, h3) \<Rightarrow> (Inl e, h3)
                        | (Inr df3, h3) \<Rightarrow>
                            convert_contributor_to_category_st lib df3 (contributor_col cfg) h3))))"

section \<open>Notions used in the statements\<close>

definition colnames :: "dataframe \<Rightarrow> string list" where
  \<comment> \<open>\<^verbatim>\<open>list(df.columns)\<close>\<close>
  "colnames df = map fst (df_columns df)"

definition rectangular :: "dataframe \<Rightarrow> bool" where
  \<comment> \<open>every column has one cell per row of the index\<close>
  "rectangular df =
     list_all (\<lambda>c. length (snd (snd c)) = length (df_index df)) (df_columns df)"

definition well_formed :: "dataframe \<Rightarrow> bool" where
  \<comment> \<open>a data frame as \<^verbatim>\<open>pd.read_csv\<close> makes it: no column name twice, one cell per row\<close>
  "well_formed df = (distinct (colnames df) \<and> rectangular df)"

definition select :: "nat list \<Rightarrow> 'a list \<Rightarrow> 'a list" where
  "select idx xs = map ((!) xs) idx"

definition select_series :: "nat list \<Rightarrow> series \<Rightarrow> series" where
  "select_series idx s = (fst s, select idx (snd s))"

definition take_rows :: "nat list \<Rightarrow> dataframe \<Rightarrow> dataframe" where
  \<comment> \<open>\<^verbatim>\<open>df.iloc[idx]\<close>: the rows at the positions \<open>idx\<close>, in that order\<close>
  "take_rows idx df =
     \<lparr>df_index = select idx (df_index df),
      df_columns = map (\<lambda>c. (fst c, select_series idx (snd c))) (df_columns df)\<rparr>"

definition PART_NAMES :: "string list" where
  "PART_NAMES = [''year'', ''month'', ''day'', ''dayofweek'']"

definition part_accessors :: "(string \<times> (timestamp \<Rightarrow> int)) list" where
  "part_accessors =
     [(''year'', ts_year), (''month'', ts_month), (''day'', ts_day),
      (''dayofweek'', ts_dayofweek)]"

definition set_part ::
  "bool \<Rightarrow> string list \<Rightarrow> series \<Rightarrow> string \<times> (timestamp \<Rightarrow> int) \<Rightarrow> dataframe \<Rightarrow> dataframe" where
  "set_part add_parts parts ts pf d =
     (if add_parts \<and> fst pf \<in> set parts
      then setitem d (fst pf) (part_series (snd pf) (snd ts)) else d)"

definition with_parts :: "bool \<Rightarrow> string list \<Rightarrow> series \<Rightarrow> dataframe \<Rightarrow> dataframe" where
  \<comment> \<open>the table \<open>d\<close> in which, for each requested part among the four, in the order year,
      month, day, dayofweek, the column of that name is set to that part of the timestamps
      \<open>ts\<close>\<close>
  "with_parts add_parts parts ts d = fold (set_part add_parts parts ts) part_accessors d"

definition requested_part :: "bool \<Rightarrow> string list \<Rightarrow> string \<Rightarrow> bool" where
  \<comment> \<open>the temporal converter is asked for the part called \<open>p\<close>\<close>
  "requested_part add_parts parts p = (add_parts \<and> p \<in> set parts \<and> p \<in> set PART_NAMES)"


definition config_columns :: "RecipeConversionConfig \<Rightarrow> string set" where
  \<comment> \<open>the column names a configuration, with the fixed nutrition names, lets the pipeline touch\<close>
  "config_columns cfg =
     set (list_like_cols cfg) \<union> {nutrition_col cfg, temporal_col cfg, contributor_col cfg}
       \<union> set NUTRITION_COLS
       \<union> (if add_temporal_parts cfg then set (temporal_parts cfg) \<inter> set PART_NAMES else {})"

definition pipeline_colnames :: "RecipeConversionConfig \<Rightarrow> string list \<Rightarrow> string list" where
  \<comment> \<open>the column names of the pipeline's result, in order, from the configuration and the
      column names of the input: the seven nutrition names come after the input's columns,
      the nutrition column goes if it is to be dropped, and the requested parts that are
      not columns yet come last, in the order year, month, day, dayofweek\<close>
  "pipeline_colnames cfg names =
     (let split =
            (if nutrition_col cfg \<in> set names
             then (if drop_original_nutrition cfg
                   then filter (\<lambda>n. n \<noteq> nutrition_col cfg) (names @ NUTRITION_COLS)
                   else names @ NUTRITION_COLS)
             else names)
      in if temporal_col cfg \<in> set split \<and> add_temporal_parts cfg
         then split @ filter (\<lambda>p. p \<in> set (temporal_parts cfg) \<and> p \<notin> set split) PART_NAMES
         else split)"

definition unchanged :: "store \<Rightarrow> store \<Rightarrow> bool" where
  \<comment> \<open>every object of the store \<open>h\<close> is still there in \<open>h'\<close>, with the same contents\<close>
  "unchanged h h' = (take (length h) h' = h)"

definition fresh_result :: "store \<Rightarrow> ref st_result \<Rightarrow> bool" where
  \<comment> \<open>a returned reference is to an object allocated during the call\<close>
  "fresh_result h res =
     (case fst res of Inl e \<Rightarrow> True | Inr r' \<Rightarrow> length h \<le> r' \<and> r' < length (snd res))"

definition leaves_input :: "ref \<Rightarrow> store \<Rightarrow> ref st_result \<Rightarrow> bool" where
  \<comment> \<open>after the call, returned or raised: the old objects are unchanged, the caller's table
      among them, and a returned table is another object than the caller's\<close>
  "leaves_input r h res =
     (unchanged h (snd res) \<and> snd res ! r = h ! r
      \<and> (case fst res of Inl e \<Rightarrow> True | Inr r' \<Rightarrow> r' \<noteq> r \<and> r' < length (snd res)))"

section \<open>Sample library answers and tables\<close>

text \<open>
  Concrete inputs for the evaluations below, with library answers that are those of pandas
  on the columns the evaluations reach and are used on those only.
  \<^item> \<open>sample_literal_eval\<close> agrees with \<^verbatim>\<open>ast.literal_eval\<close> on the four strings it lists
    (the last one raises \<^verbatim>\<open>TypeError: unhashable type: 'list'\<close>).
  \<^item> \<open>sample_to_datetime\<close> parses the one date the examples use (15 January 2020, a
    Wednesday) and coerces every other cell to \<^verbatim>\<open>NaT\<close>; on the column of the two strings
    with the UTC offsets \<^verbatim>\<open>+01:00\<close> and \<^verbatim>\<open>+02:00\<close> it answers, as pandas 2 does, with an
    \<^verbatim>\<open>object\<close> column of two datetime objects.
  \<^item> \<open>sample_column\<close> follows the dtype inference of \<^verbatim>\<open>pd.DataFrame\<close> on columns of
    \<^verbatim>\<open>None\<close>, \<^verbatim>\<open>NaN\<close>, floats and integers that a float holds exactly: all \<^verbatim>\<open>None\<close> stays
    an \<^verbatim>\<open>object\<close> column, all integers make an integer column, and any other mix makes a
    \<^verbatim>\<open>float64\<close> column in which \<^verbatim>\<open>None\<close> is \<^verbatim>\<open>NaN\<close> and an integer is a float.
  \<^item> \<open>sample_astype_category\<close> follows \<^verbatim>\<open>astype("category")\<close> on columns of integers
    (kept) and on columns of numbers with a float among them (the categories are floats,
    so an integer cell reads as a float), and raises the \<^verbatim>\<open>TypeError\<close> of an unhashable
    cell on a list or a dict.
\<close>

definition sample_literal_eval :: "string \<Rightarrow> exn + pyval" where
  "sample_literal_eval s =
     (if s = ''[1, 2, 3]'' then Inr (PList [AInt 1, AInt 2, AInt 3])
      else if s = ''[51.5, 0, 13, 0, 2, 0, 3]''
        then Inr (PList [AFloat 51.5, AInt 0, AInt 13, AInt 0, AInt 2, AInt 0, AInt 3])
      else if s = ''not-a-list'' then Inl ValueError
      else if s = ''{[1]: 2}'' then Inl TypeError
      else Inl SyntaxError)"

definition sample_to_datetime :: "series \<Rightarrow> string \<Rightarrow> exn + answer" where
  "sample_to_datetime s errors =
     (if snd s = [Atom (AStr ''2020-01-15T10:00:00+01:00''),
                  Atom (AStr ''2020-01-15T10:00:00+02:00'')]
      then Inr (ObjectDtype, \<lambda>i. Atom (ATimestamp (Timestamp 2020 1 15 2)))
      else Inr (Datetime64,
                \<lambda>i. if snd s ! i = Atom (AStr ''2020-01-15'')
                    then Atom (ATimestamp (Timestamp 2020 1 15 2)) else Atom ANaT))"

fun exact_int :: "pyval \<Rightarrow> bool" where
  "exact_int (Atom (AInt n)) = (\<bar>n\<bar> < 2 ^ 53)"
| "exact_int v = False"

fun is_float :: "pyval \<Rightarrow> bool" where
  "is_float (Atom (AFloat x)) = True"
| "is_float v = False"

fun number_or_missing :: "pyval \<Rightarrow> bool" where
  "number_or_missing (Atom (AInt n)) = (\<bar>n\<bar> < 2 ^ 53)"
| "number_or_missing (Atom (AFloat x)) = True"
| "number_or_missing (Atom ANone) = True"
| "number_or_missing (Atom ANaN) = True"
| "number_or_missing v = False"

fun as_float :: "pyval \<Rightarrow> pyval" where
  "as_float (Atom (AInt n)) = Atom (AFloat (of_int n))"
| "as_float (Atom ANone) = Atom ANaN"
| "as_float v = v"

definition sample_column :: "pyval list \<Rightarrow> answer" where
  "sample_column cells =
     (if list_all (\<lambda>v. v = Atom ANone) cells then (ObjectDtype, \<lambda>i. cells ! i)
      else if list_all exact_int cells then (IntDtype, \<lambda>i. cells ! i)
      else if list_all number_or_missing cells then (Float64, \<lambda>i. as_float (cells ! i))
      else (ObjectDtype, \<lambda>i. cells ! i))"

definition sample_astype_category :: "series \<Rightarrow> exn + (nat \<Rightarrow> pyval)" where
  "sample_astype_category s =
     (if list_ex (\<lambda>v. is_list v \<or> is_dict v) (snd s) then Inl TypeError
      else if list_all number_or_missing (snd s) \<and> list_ex is_float (snd s)
        then Inr (\<lambda>i. as_float (snd s ! i))
      else Inr (\<lambda>i. snd s ! i))"

definition sample_lib :: pylib where
  "sample_lib =
     \<lparr>literal_eval = sample_literal_eval, pd_to_datetime = sample_to_datetime,
      pd_column = sample_column, pd_astype_category = sample_astype_category,
      empty_array_raises = False\<rparr>"


definition recipes_missing :: dataframe where
  \<comment> \<open>one recipe whose nutrition cell is missing\<close>
  "recipes_missing =
     \<lparr>df_index = [AInt 0], df_columns = [(''nutrition'', (ObjectDtype, [Atom ANone]))]\<rparr>"

definition recipes_missing_converted :: dataframe where
  "recipes_missing_converted =
     \<lparr>df_index = [AInt 0],
      df_columns =
        [(''nutrition'', (ObjectDtype, [Atom ANone])),
         (''calories'', (ObjectDtype, [Atom ANone])),
         (''total_fat'', (ObjectDtype, [Atom ANone])),
         (''sugar'', (ObjectDtype, [Atom ANone])),
         (''sodium'', (ObjectDtype, [Atom ANone])),
         (''protein'', (ObjectDtype, [Atom ANone])),
         (''saturated_fat'', (ObjectDtype, [Atom ANone])),
         (''carbohydrates'', (ObjectDtype, [Atom ANone]))]\<rparr>"

definition recipes_native :: dataframe where
  \<comment> \<open>one recipe whose nutrition cell is a Python list of seven numbers\<close>
  "recipes_native =
     \<lparr>df_index = [AInt 0],
      df_columns =
        [(''nutrition'',
          (ObjectDtype,
           [PList [AFloat 51.5, AInt 0, AInt 13, AInt 0, AInt 2, AInt 0, AInt 3]]))]\<rparr>"

definition recipes_dictkey :: dataframe where
  \<comment> \<open>one recipe whose nutrition cell is the string \<^verbatim>\<open>{[1]: 2}\<close>\<close>
  "recipes_dictkey =
     \<lparr>df_index = [AInt 0],
      df_columns = [(''nutrition'', (ObjectDtype, [Atom (AStr ''{[1]: 2}'')]))]\<rparr>"

definition recipes_tags :: dataframe where
  \<comment> \<open>one recipe whose tags cell is a Python list of two strings\<close>
  "recipes_tags =
     \<lparr>df_index = [AInt 0],
      df_columns = [(''tags'', (ObjectDtype, [PList [AStr ''desserts'', AStr ''easy'']]))]\<rparr>"

definition recipes_calories :: dataframe where
  \<comment> \<open>a table with a \<^verbatim>\<open>calories\<close> column and no \<^verbatim>\<open>nutrition\<close> column\<close>
  "recipes_calories =
     \<lparr>df_index = [AInt 0, AInt 1],
      df_columns =
        [(''name'', (ObjectDtype, [Atom (AStr ''bread''), Atom (AStr ''soup'')])),
         (''calories'', (ObjectDtype, [Atom (AFloat 51.5), Atom (AInt 173)]))]\<rparr>"


definition recipes_encoded :: dataframe where
  \<comment> \<open>one recipe whose nutrition cell is the string the raw file holds\<close>
  "recipes_encoded =
     \<lparr>df_index = [AInt 0],
      df_columns =
        [(''nutrition'', (ObjectDtype, [Atom (AStr ''[51.5, 0, 13, 0, 2, 0, 3]'')]))]\<rparr>"

definition recipes_encoded_split :: dataframe where
  "recipes_encoded_split =
     \<lparr>df_index = [AInt 0],
      df_columns =
        [(''nutrition'', (ObjectDtype, [Atom (AStr ''[51.5, 0, 13, 0, 2, 0, 3]'')])),
         (''calories'', (Float64, [Atom (AFloat 51.5)])),
         (''total_fat'', (IntDtype, [Atom (AInt 0)])),
         (''sugar'', (IntDtype, [Atom (AInt 13)])),
         (''sodium'', (IntDtype, [Atom (AInt 0)])),
         (''protein'', (IntDtype, [Atom (AInt 2)])),
         (''saturated_fat'', (IntDtype, [Atom (AInt 0)])),
         (''carbohydrates'', (IntDtype, [Atom (AInt 3)]))]\<rparr>"




definition recipes_sample :: dataframe where
  \<comment> \<open>two recipes on which every stage of the pipeline returns\<close>
  "recipes_sample =
     \<lparr>df_index = [AInt 0, AInt 1],
      df_columns =
        [(''name'', (ObjectDtype, [Atom (AStr ''bread''), Atom (AStr ''soup'')])),
         (''nutrition'', (ObjectDtype, [Atom (AStr ''not-a-list''), Atom ANone])),
         (''submitted'', (ObjectDtype, [Atom (AStr ''2020-01-15''), Atom (AStr ''2019-02-30'')])),
         (''contributor_id'', (IntDtype, [Atom (AInt 5), Atom (AInt 6)]))]\<rparr>"

definition recipes_sample_converted :: dataframe where
  \<comment> \<open>the pipeline's result on \<open>recipes_sample\<close> under the default configuration\<close>
  "recipes_sample_converted =
     \<lparr>df_index = [AInt 0, AInt 1],
      df_columns =
        [(''name'', (ObjectDtype, [Atom (AStr ''bread''), Atom (AStr ''soup'')])),
         (''nutrition'', (ObjectDtype, [Atom ANone, Atom ANone])),
         (''submitted'', (Datetime64, [Atom (ATimestamp (Timestamp 2020 1 15 2)), Atom ANaT])),
         (''contributor_id'', (Category, [Atom (AInt 5), Atom (AInt 6)])),
         (''calories'', (ObjectDtype, [Atom ANone, Atom ANone])),
         (''total_fat'', (ObjectDtype, [Atom ANone, Atom ANone])),
         (''sugar'', (ObjectDtype, [Atom ANone, Atom ANone])),
         (''sodium'', (ObjectDtype, [Atom ANone, Atom ANone])),
         (''protein'', (ObjectDtype, [Atom ANone, Atom ANone])),
         (''saturated_fat'', (ObjectDtype, [Atom ANone, Atom ANone])),
         (''carbohydrates'', (ObjectDtype, [Atom ANone, Atom ANone])),
         (''year'', (Float64, [Atom (AFloat 2020), Atom ANaN])),
         (''month'', (Float64, [Atom (AFloat 1), Atom ANaN]))]\<rparr>"

definition dropping_config :: RecipeConversionConfig where
  \<comment> \<open>a configuration that drops the nutrition column and asks for the parts day and month\<close>
  "dropping_config =
     default_config\<lparr>temporal_parts := [''day'', ''month''], drop_original_nutrition := True\<rparr>"

definition recipes_sample_dropped :: dataframe where
  \<comment> \<open>the pipeline's result on \<open>recipes_sample\<close> under \<open>dropping_config\<close>\<close>
  "recipes_sample_dropped =
     \<lparr>df_index = [AInt 0, AInt 1],
      df_columns =
        [(''name'', (ObjectDtype, [Atom (AStr ''bread''), Atom (AStr ''soup'')])),
         (''submitted'', (Datetime64, [Atom (ATimestamp (Timestamp 2020 1 15 2)), Atom ANaT])),
         (''contributor_id'', (Category, [Atom (AInt 5), Atom (AInt 6)])),
         (''calories'', (ObjectDtype, [Atom ANone, Atom ANone])),
         (''total_fat'', (ObjectDtype, [Atom ANone, Atom ANone])),
         (''sugar'', (ObjectDtype, [Atom ANone, Atom ANone])),
         (''sodium'', (ObjectDtype, [Atom ANone, Atom ANone])),
         (''protein'', (ObjectDtype, [Atom ANone, Atom ANone])),
         (''saturated_fat'', (ObjectDtype, [Atom ANone, Atom ANone])),
         (''carbohydrates'', (ObjectDtype, [Atom ANone, Atom ANone])),
         (''month'', (Float64, [Atom (AFloat 1), Atom ANaN])),
         (''day'', (Float64, [Atom (AFloat 15), Atom ANaN]))]\<rparr>"






section \<open>Basic facts\<close>

lemma getitem_None_iff: "getitem df c = None \<longleftrightarrow> \<not> has_column df c"
  by (simp add: getitem_def has_column_def map_of_eq_None_iff)

lemma returned_None [simp]: "returned (None, d) = Inr d"
  by (simp add: returned_def)

lemma returned_Some [simp]: "returned (Some e, d) = Inl e"
  by (simp add: returned_def)

lemma returned_Inr_iff: "returned r = Inr d \<longleftrightarrow> r = (None, d)"
  by (cases r) (auto simp: returned_def split: option.splits)

lemma has_column_colnames: "has_column df c \<longleftrightarrow> c \<in> set (colnames df)"
  by (simp add: has_column_def colnames_def)

lemma has_column_getitem_eq: "getitem d c = getitem df c \<Longrightarrow> has_column d c = has_column df c"
  using getitem_None_iff [of d c] getitem_None_iff [of df c] by auto

subsection \<open>Assigning a column\<close>

lemma getitem_setitem: "getitem (setitem df c s) c' = (if c' = c then Some s else getitem df c')"
  by (simp add: getitem_def setitem_def update_conv')

lemma index_setitem [simp]: "df_index (setitem df c s) = df_index df"
  by (simp add: setitem_def)

lemma has_column_setitem: "has_column (setitem df c s) c' \<longleftrightarrow> c' = c \<or> has_column df c'"
  by (auto simp: has_column_def setitem_def update_keys)

lemma has_column_setitem_same: "has_column df c \<Longrightarrow> has_column (setitem df c s) = has_column df"
  by (auto simp: has_column_setitem)

lemma colnames_setitem:
  "colnames (setitem df c s) = (if has_column df c then colnames df else colnames df @ [c])"
  by (simp add: colnames_def setitem_def update_keys has_column_def)

lemma set_update_subset: "set (AList.update k v al) \<subseteq> insert (k, v) (set al)"
  by (induction al) auto

lemma rectangular_setitem:
  "rectangular df \<Longrightarrow> length (snd s) = length (df_index df) \<Longrightarrow> rectangular (setitem df c s)"
  using set_update_subset [of c s "df_columns df"]
  by (auto simp: rectangular_def setitem_def list_all_iff)

lemma rectangular_getitem:
  "rectangular df \<Longrightarrow> getitem df c = Some s \<Longrightarrow> length (snd s) = length (df_index df)"
  by (auto simp: rectangular_def getitem_def list_all_iff dest!: map_of_SomeD)

lemma update_commute:
  "k \<noteq> k' \<Longrightarrow> k \<in> fst ` set al \<Longrightarrow>
     AList.update k v (AList.update k' v' al) = AList.update k' v' (AList.update k v al)"
  by (induction al) auto

lemma setitem_commute:
  "c \<noteq> c' \<Longrightarrow> has_column df c \<Longrightarrow>
     setitem (setitem df c s) c' s' = setitem (setitem df c' s') c s"
  using update_commute [of c c' "df_columns df" s s']
  by (simp add: setitem_def has_column_def)

lemma distinct_setitem: "distinct (colnames df) \<Longrightarrow> distinct (colnames (setitem df c s))"
  by (simp add: colnames_setitem has_column_colnames)

subsection \<open>Concatenating and dropping columns\<close>

lemma getitem_concat:
  "getitem (concat_axis1 df other) c = (case getitem df c of None \<Rightarrow> map_of other c | Some s \<Rightarrow> Some s)"
  by (simp add: getitem_def concat_axis1_def map_add_def)

lemma map_of_drop: "map_of (filter (\<lambda>c. fst c \<noteq> k) al) k' = (if k' = k then None else map_of al k')"
  by (induction al) auto

lemma getitem_drop: "getitem (drop_column df c) c' = (if c' = c then None else getitem df c')"
  by (simp add: getitem_def drop_column_def map_of_drop)

lemma index_concat [simp]: "df_index (concat_axis1 df other) = df_index df"
  by (simp add: concat_axis1_def)

lemma index_drop [simp]: "df_index (drop_column df c) = df_index df"
  by (simp add: drop_column_def)

lemma rectangular_drop: "rectangular df \<Longrightarrow> rectangular (drop_column df c)"
  by (simp add: rectangular_def drop_column_def list_all_iff)

lemma rectangular_concat:
  "rectangular df \<Longrightarrow> list_all (\<lambda>c. length (snd (snd c)) = length (df_index df)) other
     \<Longrightarrow> rectangular (concat_axis1 df other)"
  by (simp add: rectangular_def concat_axis1_def)

lemma colnames_concat: "colnames (concat_axis1 df other) = colnames df @ map fst other"
  by (simp add: colnames_def concat_axis1_def)

lemma colnames_drop: "colnames (drop_column df c) = filter (\<lambda>n. n \<noteq> c) (colnames df)"
  by (simp add: colnames_def drop_column_def filter_map comp_def)

lemma update_append_in:
  "k \<in> fst ` set al \<Longrightarrow> AList.update k v (al @ other) = AList.update k v al @ other"
  by (induction al) auto

lemma filter_update_keep:
  "k \<noteq> x \<Longrightarrow> filter (\<lambda>c. fst c \<noteq> x) (AList.update k v al)
     = AList.update k v (filter (\<lambda>c. fst c \<noteq> x) al)"
  by (induction al) auto

lemma concat_setitem:
  "has_column df c \<Longrightarrow> concat_axis1 (setitem df c s) other = setitem (concat_axis1 df other) c s"
  by (simp add: concat_axis1_def setitem_def has_column_def update_append_in)

lemma drop_setitem:
  "c \<noteq> x \<Longrightarrow> drop_column (setitem df c s) x = setitem (drop_column df x) c s"
  by (simp add: drop_column_def setitem_def filter_update_keep)

lemma series_of_length [simp]: "length (snd (series_of n a)) = n"
  by (simp add: series_of_def)

lemma fst_series_of [simp]: "fst (series_of n a) = fst a"
  by (simp add: series_of_def)

lemma frame_of_rows_lengths:
  "list_all (\<lambda>c. length (snd (snd c)) = length rows) (frame_of_rows lib rows names)"
  by (simp add: frame_of_rows_def list_all_iff)

lemma frame_of_rows_names: "map fst (frame_of_rows lib rows names) = names"
  by (simp add: frame_of_rows_def comp_def map_nth)

lemma map_of_frame_of_rows_None: "c \<notin> set names \<Longrightarrow> map_of (frame_of_rows lib rows names) c = None"
  using frame_of_rows_names [of lib rows names] by (simp add: map_of_eq_None_iff flip: set_map)



lemma pad_or_none_length [simp]: "length (pad_or_none x n) = n"
  by (cases x) auto

subsection \<open>Applying a function to a series\<close>

lemma apply_cells_length: "apply_cells f xs = Inr ys \<Longrightarrow> length ys = length xs"
  by (induction xs arbitrary: ys) (auto split: sum.splits)

lemma apply_cells_nth:
  "apply_cells f xs = Inr ys \<Longrightarrow> i < length xs \<Longrightarrow> f (xs ! i) = Inr (ys ! i)"
proof (induction xs arbitrary: ys i)
  case Nil
  then show ?case by simp
next
  case (Cons x xs)
  then show ?case by (cases i) (auto split: sum.splits)
qed

lemma apply_series_length: "apply_series f s = Inr s' \<Longrightarrow> length (snd s') = length (snd s)"
  by (auto simp: apply_series_def split: sum.splits if_splits dest: apply_cells_length)


subsection \<open>The list parser\<close>

lemma list_like_loop_index: "list_like_loop lib cols df = (r, d) \<Longrightarrow> df_index d = df_index df"
  by (induction cols arbitrary: df) (auto split: option.splits sum.splits)

lemma list_like_loop_rect:
  "rectangular df \<Longrightarrow> list_like_loop lib cols df = (r, d) \<Longrightarrow> rectangular d"
proof (induction cols arbitrary: df)
  case Nil
  then show ?case by simp
next
  case (Cons c cols)
  show ?case
  proof (cases "getitem df c")
    case None
    with Cons show ?thesis by simp
  next
    case (Some s)
    show ?thesis
    proof (cases "apply_series (ensure_list_or_none lib) s")
      case (Inl e)
      with Some Cons.prems show ?thesis by simp
    next
      case (Inr s')
      have "rectangular (setitem df c s')"
        using Cons.prems(1) Some Inr
        by (simp add: rectangular_setitem rectangular_getitem apply_series_length)
      with Cons.IH Cons.prems(2) Some Inr show ?thesis by simp
    qed
  qed
qed

lemma list_like_loop_colnames:
  "list_like_loop lib cols df = (r, d) \<Longrightarrow> colnames d = colnames df"
proof (induction cols arbitrary: df)
  case Nil
  then show ?case by simp
next
  case (Cons c cols)
  show ?case
  proof (cases "getitem df c")
    case None
    with Cons show ?thesis by simp
  next
    case (Some s)
    then have hc: "has_column df c" using getitem_None_iff [of df c] by simp
    show ?thesis
    proof (cases "apply_series (ensure_list_or_none lib) s")
      case (Inl e)
      with Some Cons.prems show ?thesis by simp
    next
      case (Inr s')
      with Cons.IH [of "setitem df c s'"] Cons.prems Some hc show ?thesis
        by (simp add: colnames_setitem)
    qed
  qed
qed

lemma list_like_loop_frame:
  "list_like_loop lib cols df = (r, d) \<Longrightarrow> c \<notin> set cols \<Longrightarrow> getitem d c = getitem df c"
proof (induction cols arbitrary: df)
  case Nil
  then show ?case by simp
next
  case (Cons c' cols)
  show ?case
  proof (cases "getitem df c'")
    case None
    with Cons show ?thesis by simp
  next
    case (Some s)
    show ?thesis
    proof (cases "apply_series (ensure_list_or_none lib) s")
      case (Inl e)
      with Some Cons.prems show ?thesis by simp
    next
      case (Inr s')
      with Cons.IH [of "setitem df c' s'"] Cons.prems Some show ?thesis
        by (simp add: getitem_setitem)
    qed
  qed
qed

lemma list_like_loop_absent:
  "\<forall>c \<in> set cols. \<not> has_column df c \<Longrightarrow> list_like_loop lib cols df = (None, df)"
  by (induction cols) (simp_all add: getitem_None_iff [symmetric])

lemma list_like_loop_distinct:
  "list_like_loop lib cols df = (r, d) \<Longrightarrow> distinct (colnames d) = distinct (colnames df)"
  by (simp add: list_like_loop_colnames)

lemma list_like_loop_skip:
  "list_like_loop lib cols df = list_like_loop lib (filter (has_column df) cols) df"
proof (induction cols arbitrary: df)
  case Nil
  then show ?case by simp
next
  case (Cons c cols)
  show ?case
  proof (cases "getitem df c")
    case None
    then have "\<not> has_column df c" by (simp add: getitem_None_iff)
    with None Cons show ?thesis by simp
  next
    case (Some s)
    then have hc: "has_column df c" using getitem_None_iff [of df c] by simp
    show ?thesis
    proof (cases "apply_series (ensure_list_or_none lib) s")
      case (Inl e)
      with Some hc show ?thesis by simp
    next
      case (Inr s')
      have "has_column (setitem df c s') = has_column df"
        using hc by (rule has_column_setitem_same)
      with Cons [of "setitem df c s'"] Some Inr hc show ?thesis by simp
    qed
  qed
qed

subsection \<open>The splitter\<close>

lemma split_absent:
  "\<not> has_column df c \<Longrightarrow> split_nutrition_columns lib df c out d = Inr df"
  by (simp add: split_nutrition_columns_def getitem_None_iff [symmetric])

lemma split_cases:
  assumes "split_nutrition_columns lib df c out d = Inr df'"
  obtains (absent) "getitem df c = None" "df' = df"
  | (present) s lsts where "getitem df c = Some s"
      "apply_series (ensure_list_or_none lib) s = Inr lsts"
      "filter (has_column df) out = []"
      "df' = (let ou = concat_axis1 df (frame_of_rows lib (map (\<lambda>x. pad_or_none x (length out)) (snd lsts)) out)
              in if d \<and> has_column ou c then drop_column ou c else ou)"
  using assms
  by (auto simp: split_nutrition_columns_def Let_def split: option.splits sum.splits if_splits)

lemma split_index:
  "split_nutrition_columns lib df c out d = Inr df' \<Longrightarrow> df_index df' = df_index df"
  by (erule split_cases) (auto simp: Let_def)

lemma split_rect:
  assumes "rectangular df" "split_nutrition_columns lib df c out d = Inr df'"
  shows "rectangular df'"
  using assms(2)
proof (cases rule: split_cases)
  case absent
  with assms show ?thesis by simp
next
  case (present s lsts)
  have "length (snd lsts) = length (df_index df)"
    using present(1,2) assms(1) by (simp add: apply_series_length rectangular_getitem)
  then have "rectangular (concat_axis1 df (frame_of_rows lib (map (\<lambda>x. pad_or_none x (length out)) (snd lsts)) out))"
    using assms(1) frame_of_rows_lengths [of "map (\<lambda>x. pad_or_none x (length out)) (snd lsts)" lib out]
    by (simp add: rectangular_concat)
  with present(4) show ?thesis by (simp add: Let_def rectangular_drop)
qed

lemma split_frame:
  assumes "split_nutrition_columns lib df c out d = Inr df'" "c' \<notin> set out" "c' \<noteq> c \<or> \<not> d"
  shows "getitem df' c' = getitem df c'"
  using assms(1)
proof (cases rule: split_cases)
  case absent
  then show ?thesis by simp
next
  case (present s lsts)
  with assms(2,3) show ?thesis
    by (auto simp: Let_def getitem_drop getitem_concat map_of_frame_of_rows_None split: option.splits)
qed

lemma split_colnames:
  assumes "split_nutrition_columns lib df c out d = Inr df'"
  shows "colnames df' = (if has_column df c then (if d then filter (\<lambda>n. n \<noteq> c) (colnames df @ out) else colnames df @ out) else colnames df)"
  using assms
proof (cases rule: split_cases)
  case absent
  then show ?thesis by (simp add: getitem_None_iff)
next
  case (present s lsts)
  then have hc: "has_column df c" using getitem_None_iff [of df c] by simp
  then have "has_column (concat_axis1 df other) c" for other
    by (simp add: has_column_colnames colnames_concat) 
  with present(4) hc show ?thesis
    by (simp add: Let_def colnames_drop colnames_concat frame_of_rows_names)
qed

lemma split_distinct:
  assumes "split_nutrition_columns lib df c outs d = Inr df'" "distinct (colnames df)" "distinct outs"
  shows "distinct (colnames df')"
  using assms(1)
proof (cases rule: split_cases)
  case absent
  with assms(2) show ?thesis by simp
next
  case (present s lsts)
  have "set (colnames df) \<inter> set outs = {}"
    using present(3) by (auto simp: filter_empty_conv has_column_colnames)
  then have da: "distinct (colnames df @ outs)" using assms(2,3) by simp
  then have "distinct (filter (\<lambda>n. n \<noteq> c) (colnames df @ outs))" by (rule distinct_filter)
  then show ?thesis
    using split_colnames [OF assms(1)] da assms(2) by (simp split: if_splits)
qed


lemma distinct_NUTRITION_COLS: "distinct NUTRITION_COLS"
  by (simp add: NUTRITION_COLS_def)

subsection \<open>The temporal converter\<close>

lemma temporal_absent:
  "\<not> has_column df c \<Longrightarrow> convert_temporal_columns lib df c a ps = Inr df"
  by (simp add: convert_temporal_columns_def temporal_body_def getitem_None_iff [symmetric])

lemma to_datetime_length: "to_datetime lib s = Inr ts \<Longrightarrow> length (snd ts) = length (snd s)"
  by (auto simp: to_datetime_def split: sum.splits)

lemma part_series_length [simp]: "length (snd (part_series f cells)) = length cells"
  by (simp add: part_series_def)

lemma part_series_dtype [simp]: "fst (part_series f cells) \<noteq> Datetime64"
  by (simp add: part_series_def)


lemma dt_part_length: "dt_part f s = Inr p \<Longrightarrow> length (snd p) = length (snd s)"
  by (auto simp: dt_part_def split: if_splits)

lemma add_part_index: "add_part n f c ps st = st' \<Longrightarrow> df_index (snd st') = df_index (snd st)"
  by (auto simp: add_part_def split: option.splits sum.splits if_splits)

lemma add_part_rect:
  assumes "rectangular (snd st)"
  shows "rectangular (snd (add_part n f c ps st))"
proof -
  have "rectangular (setitem (snd st) n p)"
    if "getitem (snd st) c = Some s" "dt_part f s = Inr p" for s p
    using that assms rectangular_getitem [of "snd st" c s] dt_part_length [of f s p]
    by (intro rectangular_setitem) simp_all
  then show ?thesis
    using assms by (auto simp: add_part_def split: option.splits sum.splits)
qed

lemma add_part_frame':
  "c' \<noteq> n \<or> n \<notin> set ps \<Longrightarrow> getitem (snd (add_part n f c ps st)) c' = getitem (snd st) c'"
  by (auto simp: add_part_def getitem_setitem split: option.splits sum.splits if_splits)

lemma add_part_colnames:
  "set (colnames (snd (add_part n f c ps st)))
     \<subseteq> set (colnames (snd st)) \<union> (if n \<in> set ps then {n} else {})"
  by (auto simp: add_part_def colnames_setitem split: option.splits sum.splits if_splits)

lemma add_part_None: "add_part n f c ps st = (None, d) \<Longrightarrow> fst st = None"
  by (cases st) (auto simp: add_part_def split: option.splits)

lemma add_part_result:
  assumes "add_part n f c ps st = (None, d)"
  obtains d0 where "st = (None, d0)"
  using assms add_part_None [OF assms] by (cases st) auto


lemma add_part_step:
  assumes "add_part n f c ps (None, d0) = (None, d)"
    and "getitem d0 c = Some ts \<or> (\<exists>g. getitem d0 c = Some (part_series g (snd ts)))"
  shows "d = (if n \<in> set ps then setitem d0 n (part_series f (snd ts)) else d0)"
    and "n \<in> set ps \<Longrightarrow> fst ts = Datetime64"
    and "getitem d c = Some ts \<or> (\<exists>g. getitem d c = Some (part_series g (snd ts)))"
proof -
  show d: "d = (if n \<in> set ps then setitem d0 n (part_series f (snd ts)) else d0)"
    using assms
    by (auto simp: add_part_def dt_part_def split: option.splits sum.splits if_splits)
  show "fst ts = Datetime64" if "n \<in> set ps"
    using assms that
    by (auto simp: add_part_def dt_part_def split: option.splits sum.splits if_splits)
  show "getitem d c = Some ts \<or> (\<exists>g. getitem d c = Some (part_series g (snd ts)))"
    using assms(2) d by (auto simp: getitem_setitem)
qed


lemma temporal_body_index: "df_index (snd (temporal_body lib df c a ps)) = df_index df"
  by (auto simp: temporal_body_def Let_def add_part_index split: option.splits sum.splits)

lemma temporal_body_rect:
  assumes "rectangular df"
  shows "rectangular (snd (temporal_body lib df c a ps))"
proof (cases "getitem df c")
  case None
  with assms show ?thesis by (simp add: temporal_body_def)
next
  case (Some s)
  show ?thesis
  proof (cases "to_datetime lib s")
    case (Inl e)
    with Some assms show ?thesis by (simp add: temporal_body_def)
  next
    case (Inr ts)
    have "rectangular (setitem df c ts)"
      using assms Some rectangular_getitem [of df c s] to_datetime_length [OF Inr]
      by (intro rectangular_setitem) simp_all
    then show ?thesis
      using Some Inr by (simp add: temporal_body_def Let_def add_part_rect)
  qed
qed

lemma temporal_body_frame':
  assumes "c' \<noteq> c" "a \<Longrightarrow> c' \<notin> set ps \<inter> set PART_NAMES"
  shows "getitem (snd (temporal_body lib df c a ps)) c' = getitem df c'"
proof (cases "getitem df c")
  case None
  then show ?thesis by (simp add: temporal_body_def)
next
  case (Some s)
  show ?thesis
  proof (cases "to_datetime lib s")
    case (Inl e)
    with Some show ?thesis by (simp add: temporal_body_def)
  next
    case (Inr ts)
    show ?thesis
    proof (cases a)
      case False
      with Some Inr assms(1) show ?thesis by (simp add: temporal_body_def Let_def getitem_setitem)
    next
      case True
      then have "c' \<noteq> ''year'' \<or> ''year'' \<notin> set ps" "c' \<noteq> ''month'' \<or> ''month'' \<notin> set ps"
        "c' \<noteq> ''day'' \<or> ''day'' \<notin> set ps" "c' \<noteq> ''dayofweek'' \<or> ''dayofweek'' \<notin> set ps"
        using assms(2) by (auto simp: PART_NAMES_def)
      then show ?thesis
        using Some Inr True assms(1)
        by (simp add: temporal_body_def Let_def add_part_frame' getitem_setitem)
    qed
  qed
qed

lemma temporal_body_colnames:
  "set (colnames (snd (temporal_body lib df c a ps)))
     \<subseteq> set (colnames df) \<union> (if a then set ps \<inter> set PART_NAMES else {})"
proof (cases "getitem df c")
  case None
  then show ?thesis by (simp add: temporal_body_def)
next
  case (Some s)
  then have hc: "has_column df c" using getitem_None_iff [of df c] by simp
  show ?thesis
  proof (cases "to_datetime lib s")
    case (Inl e)
    with Some show ?thesis by (simp add: temporal_body_def)
  next
    case (Inr ts)
    define df1 where "df1 = setitem df c ts"
    have n1: "colnames df1 = colnames df" using hc by (simp add: df1_def colnames_setitem)
    show ?thesis
    proof (cases a)
      case False
      with Some Inr n1 show ?thesis by (simp add: temporal_body_def Let_def df1_def)
    next
      case True
      define st1 where "st1 = add_part ''year'' ts_year c ps (None, df1)"
      define st2 where "st2 = add_part ''month'' ts_month c ps st1"
      define st3 where "st3 = add_part ''day'' ts_day c ps st2"
      define st4 where "st4 = add_part ''dayofweek'' ts_dayofweek c ps st3"
      have b: "temporal_body lib df c a ps = st4"
        using Some Inr True
        by (simp add: temporal_body_def Let_def df1_def st1_def st2_def st3_def st4_def)
      have "set (colnames (snd st1)) \<subseteq> set (colnames df) \<union> (set ps \<inter> set PART_NAMES)"
        using add_part_colnames [of "''year''" ts_year c ps "(None, df1)"] n1
        by (auto simp: st1_def PART_NAMES_def split: if_splits)
      moreover have "set (colnames (snd st2)) \<subseteq> set (colnames (snd st1)) \<union> (set ps \<inter> set PART_NAMES)"
        using add_part_colnames [of "''month''" ts_month c ps st1]
        by (auto simp: st2_def PART_NAMES_def split: if_splits)
      moreover have "set (colnames (snd st3)) \<subseteq> set (colnames (snd st2)) \<union> (set ps \<inter> set PART_NAMES)"
        using add_part_colnames [of "''day''" ts_day c ps st2]
        by (auto simp: st3_def PART_NAMES_def split: if_splits)
      moreover have "set (colnames (snd st4)) \<subseteq> set (colnames (snd st3)) \<union> (set ps \<inter> set PART_NAMES)"
        using add_part_colnames [of "''dayofweek''" ts_dayofweek c ps st3]
        by (auto simp: st4_def PART_NAMES_def split: if_splits)
      ultimately show ?thesis using b True by auto
    qed
  qed
qed


lemma index_with_parts [simp]: "df_index (with_parts a ps ts d0) = df_index d0"
  by (simp add: with_parts_def set_part_def part_accessors_def)



lemma colnames_with_parts:
  "colnames (with_parts a ps ts d0) =
     colnames d0 @ filter (\<lambda>p. a \<and> p \<in> set ps \<and> \<not> has_column d0 p) PART_NAMES"
  by (simp add: with_parts_def set_part_def part_accessors_def PART_NAMES_def colnames_setitem
      has_column_setitem)


lemma temporal_returned:
  assumes "temporal_body lib df c a ps = (None, d)" "getitem df c = Some s"
  obtains ts where "to_datetime lib s = Inr ts"
    "d = with_parts a ps ts (setitem df c ts)"
    "\<And>p. requested_part a ps p \<Longrightarrow> fst ts = Datetime64"
proof -
  from assms obtain ts where t: "to_datetime lib s = Inr ts"
    by (auto simp: temporal_body_def split: sum.splits)
  define df1 where "df1 = setitem df c ts"
  show ?thesis
  proof (cases a)
    case False
    then have "d = with_parts a ps ts df1"
      using assms t
      by (simp add: temporal_body_def Let_def df1_def with_parts_def set_part_def part_accessors_def)
    with t False show ?thesis
      by (intro that [of ts]) (auto simp: df1_def requested_part_def)
  next
    case True
    have chain: "add_part ''dayofweek'' ts_dayofweek c ps
                  (add_part ''day'' ts_day c ps
                    (add_part ''month'' ts_month c ps
                      (add_part ''year'' ts_year c ps (None, df1)))) = (None, d)"
      using assms t True by (simp add: temporal_body_def Let_def df1_def)
    then obtain d3 where s3: "add_part ''day'' ts_day c ps
                    (add_part ''month'' ts_month c ps
                      (add_part ''year'' ts_year c ps (None, df1))) = (None, d3)"
      by (rule add_part_result)
    then obtain d2 where s2: "add_part ''month'' ts_month c ps
                      (add_part ''year'' ts_year c ps (None, df1)) = (None, d2)"
      by (rule add_part_result)
    then obtain d1 where s1: "add_part ''year'' ts_year c ps (None, df1) = (None, d1)"
      by (rule add_part_result)
    have s2': "add_part ''month'' ts_month c ps (None, d1) = (None, d2)" using s2 s1 by simp
    have s3': "add_part ''day'' ts_day c ps (None, d2) = (None, d3)" using s3 s2 by simp
    have s4': "add_part ''dayofweek'' ts_dayofweek c ps (None, d3) = (None, d)"
      using chain s3 by simp
    have i0: "getitem df1 c = Some ts \<or> (\<exists>g. getitem df1 c = Some (part_series g (snd ts)))"
      by (simp add: df1_def getitem_setitem)
    note p1 = add_part_step [OF s1 i0]
    note p2 = add_part_step [OF s2' p1(3)]
    note p3 = add_part_step [OF s3' p2(3)]
    note p4 = add_part_step [OF s4' p3(3)]
    have e: "d = with_parts a ps ts df1"
      using True p1(1) p2(1) p3(1) p4(1)
      by (simp add: with_parts_def set_part_def part_accessors_def)
    have q: "fst ts = Datetime64" if "requested_part a ps p" for p
      using that p1(2) p2(2) p3(2) p4(2) by (auto simp: requested_part_def PART_NAMES_def)
    show ?thesis using t e q by (intro that [of ts]) (auto simp: df1_def)
  qed
qed

lemma temporal_colnames:
  assumes "temporal_body lib df c a ps = (None, d)"
  shows "colnames d =
           (if has_column df c
            then colnames df @ filter (\<lambda>p. a \<and> p \<in> set ps \<and> \<not> has_column df p) PART_NAMES
            else colnames df)"
proof (cases "getitem df c")
  case None
  then have "\<not> has_column df c" by (simp add: getitem_None_iff)
  with None assms show ?thesis by (simp add: temporal_body_def)
next
  case (Some s)
  then have hc: "has_column df c" using getitem_None_iff [of df c] by simp
  from assms Some obtain ts where d: "d = with_parts a ps ts (setitem df c ts)"
    by (rule temporal_returned)
  have "has_column (setitem df c ts) = has_column df"
    using hc by (rule has_column_setitem_same)
  then show ?thesis
    using hc by (simp add: d colnames_with_parts colnames_setitem)
qed



lemma add_part_distinct:
  "distinct (colnames (snd st)) \<Longrightarrow> distinct (colnames (snd (add_part n f c ps st)))"
  by (auto simp: add_part_def distinct_setitem split: option.splits sum.splits)

lemma temporal_body_distinct:
  "distinct (colnames df) \<Longrightarrow> distinct (colnames (snd (temporal_body lib df c a ps)))"
  by (auto simp: temporal_body_def Let_def add_part_distinct distinct_setitem
      split: option.splits sum.splits)

subsection \<open>The category caster\<close>

lemma category_absent:
  "\<not> has_column df c \<Longrightarrow> convert_contributor_to_category lib df c = Inr df"
  by (simp add: convert_contributor_to_category_def category_body_def getitem_None_iff [symmetric])

lemma category_body_index: "df_index (snd (category_body lib df c)) = df_index df"
  by (auto simp: category_body_def split: option.splits sum.splits)

lemma astype_category_length:
  "astype_category lib s = Inr s' \<Longrightarrow> length (snd s') = length (snd s)"
  by (auto simp: astype_category_def split: sum.splits)

lemma category_body_rect:
  assumes "rectangular df"
  shows "rectangular (snd (category_body lib df c))"
proof -
  have "rectangular (setitem df c s')"
    if "getitem df c = Some s" "astype_category lib s = Inr s'" for s s'
    using that assms rectangular_getitem [of df c s] astype_category_length [of lib s s']
    by (intro rectangular_setitem) simp_all
  then show ?thesis
    using assms by (auto simp: category_body_def split: option.splits sum.splits)
qed

lemma category_body_frame:
  "c' \<noteq> c \<Longrightarrow> getitem (snd (category_body lib df c)) c' = getitem df c'"
  by (auto simp: category_body_def getitem_setitem split: option.splits sum.splits)

lemma category_body_colnames: "colnames (snd (category_body lib df c)) = colnames df"
proof (cases "getitem df c")
  case None
  then show ?thesis by (simp add: category_body_def)
next
  case (Some s)
  then have "has_column df c" using getitem_None_iff [of df c] by simp
  with Some show ?thesis
    by (auto simp: category_body_def colnames_setitem split: sum.splits)
qed

lemma category_body_distinct:
  "distinct (colnames df) \<Longrightarrow> distinct (colnames (snd (category_body lib df c)))"
  by (simp add: category_body_colnames)


subsection \<open>The pipeline\<close>

lemma pipeline_cases:
  assumes "convert_recipes_for_univariate lib df config = Inr df'"
  obtains cfg df1 df2 df3 where
    "cfg = (case config of None \<Rightarrow> default_config | Some c \<Rightarrow> c)"
    "convert_list_like_columns lib df (list_like_cols cfg) = Inr df1"
    "(if has_column df1 (nutrition_col cfg)
      then split_nutrition_columns lib df1 (nutrition_col cfg) NUTRITION_COLS
             (drop_original_nutrition cfg)
      else Inr df1) = Inr df2"
    "convert_temporal_columns lib df2 (temporal_col cfg) (add_temporal_parts cfg)
       (temporal_parts cfg) = Inr df3"
    "convert_contributor_to_category lib df3 (contributor_col cfg) = Inr df'"
  using assms
  by (auto simp: convert_recipes_for_univariate_def Let_def split: sum.splits)

lemma pipeline_columns:
  assumes "convert_recipes_for_univariate lib df (Some cfg) = Inr df'"
  shows "set (colnames df') \<subseteq> set (colnames df) \<union> set NUTRITION_COLS
           \<union> (if add_temporal_parts cfg then set (temporal_parts cfg) \<inter> set PART_NAMES else {})"
    and "c \<notin> config_columns cfg \<Longrightarrow> getitem df' c = getitem df c"
proof -
  from assms obtain cfg' df1 df2 df3 where
    cfg: "cfg' = (case Some cfg of None \<Rightarrow> default_config | Some c \<Rightarrow> c)"
    and s1: "convert_list_like_columns lib df (list_like_cols cfg') = Inr df1"
    and s2: "(if has_column df1 (nutrition_col cfg')
      then split_nutrition_columns lib df1 (nutrition_col cfg') NUTRITION_COLS
             (drop_original_nutrition cfg')
      else Inr df1) = Inr df2"
    and s3: "convert_temporal_columns lib df2 (temporal_col cfg') (add_temporal_parts cfg')
       (temporal_parts cfg') = Inr df3"
    and s4: "convert_contributor_to_category lib df3 (contributor_col cfg') = Inr df'"
    by (rule pipeline_cases)
  have [simp]: "cfg' = cfg" using cfg by simp
  have l1: "list_like_loop lib (list_like_cols cfg) df = (None, df1)"
    using s1 by (simp add: convert_list_like_columns_def returned_Inr_iff)
  have l3: "temporal_body lib df2 (temporal_col cfg) (add_temporal_parts cfg) (temporal_parts cfg) = (None, df3)"
    using s3 by (simp add: convert_temporal_columns_def returned_Inr_iff)
  have l4: "category_body lib df3 (contributor_col cfg) = (None, df')"
    using s4 by (simp add: convert_contributor_to_category_def returned_Inr_iff)
  have n1: "colnames df1 = colnames df" using l1 by (rule list_like_loop_colnames)
  have n2: "set (colnames df2) \<subseteq> set (colnames df1) \<union> set NUTRITION_COLS"
    using s2 by (auto simp: split_colnames split: if_splits)
  have n3: "set (colnames df3) \<subseteq> set (colnames df2)
              \<union> (if add_temporal_parts cfg then set (temporal_parts cfg) \<inter> set PART_NAMES else {})"
    using temporal_body_colnames [of lib df2 "temporal_col cfg" "add_temporal_parts cfg" "temporal_parts cfg"] l3
    by simp
  have n4: "colnames df' = colnames df3"
    using category_body_colnames [of lib df3 "contributor_col cfg"] l4 by simp
  show "set (colnames df') \<subseteq> set (colnames df) \<union> set NUTRITION_COLS
           \<union> (if add_temporal_parts cfg then set (temporal_parts cfg) \<inter> set PART_NAMES else {})"
    using n1 n2 n3 n4 by (auto split: if_splits)
  show "getitem df' c = getitem df c" if c: "c \<notin> config_columns cfg"
  proof -
    have g1: "getitem df1 c = getitem df c"
      using l1 c by (intro list_like_loop_frame) (auto simp: config_columns_def)
    have g2: "getitem df2 c = getitem df1 c"
    proof (cases "has_column df1 (nutrition_col cfg)")
      case True
      with s2 have "split_nutrition_columns lib df1 (nutrition_col cfg) NUTRITION_COLS
             (drop_original_nutrition cfg) = Inr df2" by simp
      then show ?thesis using c by (intro split_frame) (auto simp: config_columns_def)
    next
      case False
      with s2 show ?thesis by simp
    qed
    have "c \<noteq> temporal_col cfg" using c by (simp add: config_columns_def)
    moreover have "c \<notin> set (temporal_parts cfg) \<inter> set PART_NAMES" if "add_temporal_parts cfg"
      using c that by (simp add: config_columns_def)
    ultimately have "getitem (snd (temporal_body lib df2 (temporal_col cfg) (add_temporal_parts cfg)
        (temporal_parts cfg))) c = getitem df2 c"
      by (rule temporal_body_frame')
    then have g3: "getitem df3 c = getitem df2 c" using l3 by simp
    have g4: "getitem df' c = getitem df3 c"
      using category_body_frame [of c "contributor_col cfg" lib df3] l4 c
      by (auto simp: config_columns_def)
    show ?thesis using g1 g2 g3 g4 by simp
  qed
qed

lemma pipeline_colnames_eq:
  assumes "convert_recipes_for_univariate lib df (Some cfg) = Inr df'"
  shows "colnames df' = pipeline_colnames cfg (colnames df)"
proof -
  from assms obtain cfg' df1 df2 df3 where
    cfg: "cfg' = (case Some cfg of None \<Rightarrow> default_config | Some c \<Rightarrow> c)"
    and s1: "convert_list_like_columns lib df (list_like_cols cfg') = Inr df1"
    and s2: "(if has_column df1 (nutrition_col cfg')
      then split_nutrition_columns lib df1 (nutrition_col cfg') NUTRITION_COLS
             (drop_original_nutrition cfg')
      else Inr df1) = Inr df2"
    and s3: "convert_temporal_columns lib df2 (temporal_col cfg') (add_temporal_parts cfg')
       (temporal_parts cfg') = Inr df3"
    and s4: "convert_contributor_to_category lib df3 (contributor_col cfg') = Inr df'"
    by (rule pipeline_cases)
  have [simp]: "cfg' = cfg" using cfg by simp
  have l1: "list_like_loop lib (list_like_cols cfg) df = (None, df1)"
    using s1 by (simp add: convert_list_like_columns_def returned_Inr_iff)
  have l3: "temporal_body lib df2 (temporal_col cfg) (add_temporal_parts cfg) (temporal_parts cfg) = (None, df3)"
    using s3 by (simp add: convert_temporal_columns_def returned_Inr_iff)
  have l4: "category_body lib df3 (contributor_col cfg) = (None, df')"
    using s4 by (simp add: convert_contributor_to_category_def returned_Inr_iff)
  have n1: "colnames df1 = colnames df" using l1 by (rule list_like_loop_colnames)
  have n2: "colnames df2 =
      (if nutrition_col cfg \<in> set (colnames df)
       then (if drop_original_nutrition cfg
             then filter (\<lambda>n. n \<noteq> nutrition_col cfg) (colnames df @ NUTRITION_COLS)
             else colnames df @ NUTRITION_COLS)
       else colnames df)"
    using s2 n1 by (auto simp: split_colnames has_column_colnames split: if_splits)
  have n3: "colnames df3 =
      (if temporal_col cfg \<in> set (colnames df2)
       then colnames df2 @ filter (\<lambda>p. add_temporal_parts cfg \<and> p \<in> set (temporal_parts cfg)
                                      \<and> p \<notin> set (colnames df2)) PART_NAMES
       else colnames df2)"
    using temporal_colnames [OF l3] by (simp add: has_column_colnames)
  have n4: "colnames df' = colnames df3"
    using category_body_colnames [of lib df3 "contributor_col cfg"] l4 by simp
  define split where "split = colnames df2"
  have n3': "colnames df3 =
      (if temporal_col cfg \<in> set split \<and> add_temporal_parts cfg
       then split @ filter (\<lambda>p. p \<in> set (temporal_parts cfg) \<and> p \<notin> set split) PART_NAMES
       else split)"
    using n3 by (cases "add_temporal_parts cfg") (simp_all add: split_def)
  have "pipeline_colnames cfg (colnames df) =
      (if temporal_col cfg \<in> set split \<and> add_temporal_parts cfg
       then split @ filter (\<lambda>p. p \<in> set (temporal_parts cfg) \<and> p \<notin> set split) PART_NAMES
       else split)"
    unfolding pipeline_colnames_def Let_def split_def n2 ..
  with n3' n4 show ?thesis by simp
qed




lemma pipeline_distinct:
  assumes "convert_recipes_for_univariate lib df config = Inr df'" "distinct (colnames df)"
  shows "distinct (colnames df')"
proof -
  from assms(1) obtain cfg df1 df2 df3 where
    cfg: "cfg = (case config of None \<Rightarrow> default_config | Some c \<Rightarrow> c)"
    and s1: "convert_list_like_columns lib df (list_like_cols cfg) = Inr df1"
    and s2: "(if has_column df1 (nutrition_col cfg)
      then split_nutrition_columns lib df1 (nutrition_col cfg) NUTRITION_COLS
             (drop_original_nutrition cfg)
      else Inr df1) = Inr df2"
    and s3: "convert_temporal_columns lib df2 (temporal_col cfg) (add_temporal_parts cfg)
       (temporal_parts cfg) = Inr df3"
    and s4: "convert_contributor_to_category lib df3 (contributor_col cfg) = Inr df'"
    by (rule pipeline_cases)
  have l1: "list_like_loop lib (list_like_cols cfg) df = (None, df1)"
    using s1 by (simp add: convert_list_like_columns_def returned_Inr_iff)
  have l3: "temporal_body lib df2 (temporal_col cfg) (add_temporal_parts cfg) (temporal_parts cfg) = (None, df3)"
    using s3 by (simp add: convert_temporal_columns_def returned_Inr_iff)
  have l4: "category_body lib df3 (contributor_col cfg) = (None, df')"
    using s4 by (simp add: convert_contributor_to_category_def returned_Inr_iff)
  have d1: "distinct (colnames df1)" using list_like_loop_distinct [OF l1] assms(2) by simp
  have d2: "distinct (colnames df2)"
    using s2 d1 split_distinct [OF _ d1 distinct_NUTRITION_COLS] by (auto split: if_splits)
  have d3: "distinct (colnames df3)"
    using temporal_body_distinct [OF d2, of lib "temporal_col cfg" "add_temporal_parts cfg" "temporal_parts cfg"] l3
    by simp
  show ?thesis using category_body_distinct [OF d3, of lib "contributor_col cfg"] l4 by simp
qed

subsection \<open>Selecting rows\<close>

lemma length_select [simp]: "length (select idx xs) = length idx"
  by (simp add: select_def)

lemma snd_select_series [simp]: "snd (select_series idx s) = select idx (snd s)"
  by (simp add: select_series_def)

lemma fst_select_series [simp]: "fst (select_series idx s) = fst s"
  by (simp add: select_series_def)

lemma map_update_values:
  "map (\<lambda>c. (fst c, g (snd c))) (AList.update k v al) = AList.update k (g v) (map (\<lambda>c. (fst c, g (snd c))) al)"
  by (induction al) auto

lemma map_of_map_values:
  "map_of (map (\<lambda>c. (fst c, g (snd c))) al) k = map_option g (map_of al k)"
  by (induction al) auto

lemma getitem_take_rows: "getitem (take_rows idx df) c = map_option (select_series idx) (getitem df c)"
  by (simp add: getitem_def take_rows_def map_of_map_values)

lemma setitem_take_rows:
  "take_rows idx (setitem df c s) = setitem (take_rows idx df) c (select_series idx s)"
  by (simp add: take_rows_def setitem_def map_update_values)

lemma has_column_take_rows [simp]: "has_column (take_rows idx df) c = has_column df c"
  by (simp add: has_column_def take_rows_def comp_def)

lemma index_take_rows [simp]: "df_index (take_rows idx df) = select idx (df_index df)"
  by (simp add: take_rows_def)

lemma apply_cells_select:
  "apply_cells f xs = Inr ys \<Longrightarrow> list_all (\<lambda>k. k < length xs) idx
     \<Longrightarrow> apply_cells f (select idx xs) = Inr (select idx ys)"
proof (induction idx)
  case Nil
  then show ?case by (simp add: select_def)
next
  case (Cons i idx)
  then have "f (xs ! i) = Inr (ys ! i)" by (simp add: apply_cells_nth)
  with Cons show ?case by (simp add: select_def)
qed

lemma apply_series_select:
  assumes "apply_series f s = Inr s'" "list_all (\<lambda>k. k < length (snd s)) idx" "idx \<noteq> []"
  shows "apply_series f (select_series idx s) = Inr (select_series idx s')"
proof -
  have ne: "snd s \<noteq> []" using assms(2,3) by (cases idx) auto
  then have "select idx (snd s) \<noteq> []" using assms(3) by (simp add: select_def)
  moreover obtain ys where "apply_cells f (snd s) = Inr ys" "s' = (ObjectDtype, ys)"
    using assms(1) ne by (auto simp: apply_series_def split: sum.splits)
  ultimately show ?thesis
    using apply_cells_select [OF _ assms(2), of f ys]
    by (simp add: apply_series_def select_series_def)
qed

lemma list_like_loop_select:
  assumes "rectangular df" "list_all (\<lambda>k. k < length (df_index df)) idx"
    "list_like_loop lib cols df = (None, d)" "idx \<noteq> []"
  shows "list_like_loop lib cols (take_rows idx df) = (None, take_rows idx d)"
  using assms
proof (induction cols arbitrary: df)
  case Nil
  then show ?case by simp
next
  case (Cons c cols)
  show ?case
  proof (cases "getitem df c")
    case None
    with Cons show ?thesis by (simp add: getitem_take_rows)
  next
    case (Some s)
    have len: "length (snd s) = length (df_index df)"
      using Cons.prems(1) Some by (rule rectangular_getitem)
    show ?thesis
    proof (cases "apply_series (ensure_list_or_none lib) s")
      case (Inl e)
      with Some Cons.prems show ?thesis by simp
    next
      case (Inr s')
      have r: "rectangular (setitem df c s')"
        using Cons.prems(1) Inr len by (intro rectangular_setitem) (simp_all add: apply_series_length)
      have sel: "apply_series (ensure_list_or_none lib) (select_series idx s) = Inr (select_series idx s')"
        using Inr Cons.prems(2,4) len by (intro apply_series_select) simp_all
      have "list_like_loop lib cols (take_rows idx (setitem df c s')) = (None, take_rows idx d)"
        using Cons.IH [OF r] Cons.prems(2,3,4) Some Inr by simp
      then show ?thesis
        using Some sel by (simp add: getitem_take_rows setitem_take_rows)
    qed
  qed
qed

lemma list_like_rows:
  assumes "rectangular df" "convert_list_like_columns lib df cols = Inr df'"
  shows "rectangular df'" "df_index df' = df_index df"
    "list_all (\<lambda>k. k < length (df_index df)) idx \<Longrightarrow> idx \<noteq> [] \<Longrightarrow>
       convert_list_like_columns lib (take_rows idx df) cols = Inr (take_rows idx df')"
proof -
  have l: "list_like_loop lib cols df = (None, df')"
    using assms(2) by (simp add: convert_list_like_columns_def returned_Inr_iff)
  show "rectangular df'" using assms(1) l by (rule list_like_loop_rect)
  show "df_index df' = df_index df" using l by (rule list_like_loop_index)
  show "convert_list_like_columns lib (take_rows idx df) cols = Inr (take_rows idx df')"
    if "list_all (\<lambda>k. k < length (df_index df)) idx" "idx \<noteq> []"
    using list_like_loop_select [OF assms(1) that(1) l that(2)]
    by (simp add: convert_list_like_columns_def)
qed

lemma temporal_rows:
  assumes "rectangular df" "convert_temporal_columns lib df c a ps = Inr df'"
  shows "rectangular df'" "df_index df' = df_index df"
proof -
  have l: "temporal_body lib df c a ps = (None, df')"
    using assms(2) by (simp add: convert_temporal_columns_def returned_Inr_iff)
  show "rectangular df'" using temporal_body_rect [OF assms(1), of lib c a ps] l by simp
  show "df_index df' = df_index df" using temporal_body_index [of lib df c a ps] l by simp
qed

lemma category_rows:
  assumes "rectangular df" "convert_contributor_to_category lib df c = Inr df'"
  shows "rectangular df'" "df_index df' = df_index df"
proof -
  have l: "category_body lib df c = (None, df')"
    using assms(2) by (simp add: convert_contributor_to_category_def returned_Inr_iff)
  show "rectangular df'" using category_body_rect [OF assms(1), of lib c] l by simp
  show "df_index df' = df_index df" using category_body_index [of lib df c] l by simp
qed

lemma pipeline_rows:
  assumes "rectangular df" "convert_recipes_for_univariate lib df config = Inr df'"
  shows "rectangular df'" "df_index df' = df_index df"
proof -
  from assms(2) obtain cfg df1 df2 df3 where
    cfg: "cfg = (case config of None \<Rightarrow> default_config | Some c \<Rightarrow> c)"
    and s1: "convert_list_like_columns lib df (list_like_cols cfg) = Inr df1"
    and s2: "(if has_column df1 (nutrition_col cfg)
      then split_nutrition_columns lib df1 (nutrition_col cfg) NUTRITION_COLS
             (drop_original_nutrition cfg)
      else Inr df1) = Inr df2"
    and s3: "convert_temporal_columns lib df2 (temporal_col cfg) (add_temporal_parts cfg)
       (temporal_parts cfg) = Inr df3"
    and s4: "convert_contributor_to_category lib df3 (contributor_col cfg) = Inr df'"
    by (rule pipeline_cases)
  have r1: "rectangular df1" and i1: "df_index df1 = df_index df"
    using list_like_rows(1,2) [OF assms(1) s1] by simp_all
  have r2: "rectangular df2" and i2: "df_index df2 = df_index df1"
    using s2 r1 split_rect [OF r1] split_index by (auto split: if_splits)
  have r3: "rectangular df3" and i3: "df_index df3 = df_index df2"
    using temporal_rows(1,2) [OF r2 s3] by simp_all
  show "rectangular df'" using category_rows(1) [OF r3 s4] .
  show "df_index df' = df_index df" using category_rows(2) [OF r3 s4] i1 i2 i3 by simp
qed

subsection \<open>Replacing a column the configuration does not name\<close>

lemma list_like_loop_setitem:
  assumes "c \<notin> set cols" "has_column df c"
  shows "list_like_loop lib cols (setitem df c s)
           = (fst (list_like_loop lib cols df), setitem (snd (list_like_loop lib cols df)) c s)"
  using assms
proof (induction cols arbitrary: df)
  case Nil
  then show ?case by simp
next
  case (Cons c' cols)
  then have ne: "c' \<noteq> c" by auto
  show ?case
  proof (cases "getitem df c'")
    case None
    with Cons ne show ?thesis by (simp add: getitem_setitem)
  next
    case (Some s0)
    show ?thesis
    proof (cases "apply_series (ensure_list_or_none lib) s0")
      case (Inl e)
      with Some ne show ?thesis by (simp add: getitem_setitem)
    next
      case (Inr s')
      have hc: "has_column (setitem df c' s') c"
        using Cons.prems(2) by (simp add: has_column_setitem)
      have "list_like_loop lib cols (setitem (setitem df c' s') c s)
           = (fst (list_like_loop lib cols (setitem df c' s')),
              setitem (snd (list_like_loop lib cols (setitem df c' s'))) c s)"
        using Cons.IH [OF _ hc] Cons.prems(1) by simp
      moreover have "setitem (setitem df c s) c' s' = setitem (setitem df c' s') c s"
        using ne Cons.prems(2) by (intro setitem_commute) auto
      ultimately show ?thesis
        using Some Inr ne by (simp add: getitem_setitem)
    qed
  qed
qed

lemma list_like_setitem:
  assumes "c \<notin> set cols" "has_column df c"
  shows "convert_list_like_columns lib (setitem df c s) cols
           = map_sum id (\<lambda>d. setitem d c s) (convert_list_like_columns lib df cols)"
  using list_like_loop_setitem [OF assms, of lib s]
  by (simp add: convert_list_like_columns_def returned_def split: option.splits)

lemma split_setitem:
  assumes "c \<noteq> src" "c \<notin> set outs" "has_column df c"
  shows "split_nutrition_columns lib (setitem df c s) src outs dropit
           = map_sum id (\<lambda>d. setitem d c s) (split_nutrition_columns lib df src outs dropit)"
proof (cases "getitem df src")
  case None
  with assms(1) show ?thesis by (simp add: split_nutrition_columns_def getitem_setitem)
next
  case (Some s0)
  show ?thesis
  proof (cases "apply_series (ensure_list_or_none lib) s0")
    case (Inl e)
    with Some assms(1) show ?thesis by (simp add: split_nutrition_columns_def getitem_setitem)
  next
    case (Inr lsts)
    have d: "filter (has_column (setitem df c s)) outs = filter (has_column df) outs"
      using assms(3) by (simp add: has_column_setitem_same)
    have h: "has_column (setitem (concat_axis1 df other) c s) src = has_column (concat_axis1 df other) src"
      for other
      using assms(1) by (simp add: has_column_setitem)
    show ?thesis
      using Some Inr assms(1,3) d h
      by (simp add: split_nutrition_columns_def getitem_setitem Let_def concat_setitem drop_setitem)
  qed
qed

lemma add_part_setitem:
  assumes "c \<noteq> n \<or> n \<notin> set ps" "c \<noteq> col" "has_column (snd st) c"
  shows "add_part n f col ps (fst st, setitem (snd st) c s)
           = (fst (add_part n f col ps st), setitem (snd (add_part n f col ps st)) c s)
         \<and> has_column (snd (add_part n f col ps st)) c"
proof -
  have "setitem (setitem (snd st) c s) n p = setitem (setitem (snd st) n p) c s" if "c \<noteq> n" for p
    using assms that by (intro setitem_commute) auto
  then show ?thesis
    using assms
    by (cases st)
      (auto simp: add_part_def getitem_setitem has_column_setitem split: option.splits sum.splits)
qed

lemma temporal_body_setitem:
  assumes "c \<noteq> col" "a \<Longrightarrow> c \<notin> set ps \<inter> set PART_NAMES" "has_column df c"
  shows "temporal_body lib (setitem df c s) col a ps
           = (fst (temporal_body lib df col a ps), setitem (snd (temporal_body lib df col a ps)) c s)"
proof (cases "getitem df col")
  case None
  with assms(1) show ?thesis by (simp add: temporal_body_def getitem_setitem)
next
  case (Some s0)
  show ?thesis
  proof (cases "to_datetime lib s0")
    case (Inl e)
    with Some assms(1) show ?thesis by (simp add: temporal_body_def getitem_setitem)
  next
    case (Inr ts)
    define df1 where "df1 = setitem df col ts"
    have c1: "setitem (setitem df c s) col ts = setitem df1 c s"
      using assms(1,3) setitem_commute [of c col df s ts] by (simp add: df1_def)
    have h1: "has_column df1 c" using assms(3) by (simp add: df1_def has_column_setitem)
    show ?thesis
    proof (cases a)
      case False
      with Some Inr assms(1) c1 show ?thesis
        by (simp add: temporal_body_def getitem_setitem Let_def df1_def)
    next
      case True
      define st1 where "st1 = add_part ''year'' ts_year col ps (None, df1)"
      define st2 where "st2 = add_part ''month'' ts_month col ps st1"
      define st3 where "st3 = add_part ''day'' ts_day col ps st2"
      define st4 where "st4 = add_part ''dayofweek'' ts_dayofweek col ps st3"
      have ne: "c \<noteq> ''year'' \<or> ''year'' \<notin> set ps" "c \<noteq> ''month'' \<or> ''month'' \<notin> set ps"
        "c \<noteq> ''day'' \<or> ''day'' \<notin> set ps" "c \<noteq> ''dayofweek'' \<or> ''dayofweek'' \<notin> set ps"
        using assms(2) True by (auto simp: PART_NAMES_def)
      have b: "temporal_body lib df col a ps = st4"
        using Some Inr True
        by (simp add: temporal_body_def Let_def df1_def st1_def st2_def st3_def st4_def)
      have p1: "add_part ''year'' ts_year col ps (None, setitem df1 c s) = (fst st1, setitem (snd st1) c s)"
        "has_column (snd st1) c"
        using add_part_setitem [where c = c and n = "''year''" and col = col and st = "(None, df1)" and f = ts_year and ps = ps and s = s] ne assms(1) h1
        by (simp_all add: st1_def)
      have p2: "add_part ''month'' ts_month col ps (fst st1, setitem (snd st1) c s) = (fst st2, setitem (snd st2) c s)"
        "has_column (snd st2) c"
        using add_part_setitem [where c = c and n = "''month''" and col = col and st = st1 and f = ts_month and ps = ps and s = s] ne assms(1) p1(2)
        by (simp_all add: st2_def)
      have p3: "add_part ''day'' ts_day col ps (fst st2, setitem (snd st2) c s) = (fst st3, setitem (snd st3) c s)"
        "has_column (snd st3) c"
        using add_part_setitem [where c = c and n = "''day''" and col = col and st = st2 and f = ts_day and ps = ps and s = s] ne assms(1) p2(2)
        by (simp_all add: st3_def)
      have p4: "add_part ''dayofweek'' ts_dayofweek col ps (fst st3, setitem (snd st3) c s) = (fst st4, setitem (snd st4) c s)"
        using add_part_setitem [where c = c and n = "''dayofweek''" and col = col and st = st3 and f = ts_dayofweek and ps = ps and s = s] ne assms(1) p3(2)
        by (simp_all add: st4_def)
      have "temporal_body lib (setitem df c s) col a ps = (fst st4, setitem (snd st4) c s)"
        using Some Inr True assms(1) c1 p1(1) p2(1) p3(1) p4
        by (simp add: temporal_body_def getitem_setitem Let_def)
      with b show ?thesis by simp
    qed
  qed
qed

lemma temporal_setitem:
  assumes "c \<noteq> col" "a \<Longrightarrow> c \<notin> set ps \<inter> set PART_NAMES" "has_column df c"
  shows "convert_temporal_columns lib (setitem df c s) col a ps
           = map_sum id (\<lambda>d. setitem d c s) (convert_temporal_columns lib df col a ps)"
  using temporal_body_setitem [OF assms, where lib = lib and s = s]
  by (simp add: convert_temporal_columns_def returned_def split: option.splits)

lemma category_setitem:
  assumes "c \<noteq> col" "has_column df c"
  shows "convert_contributor_to_category lib (setitem df c s) col
           = map_sum id (\<lambda>d. setitem d c s) (convert_contributor_to_category lib df col)"
proof -
  have "setitem (setitem df c s) col p = setitem (setitem df col p) c s" for p
    using assms by (intro setitem_commute) auto
  then show ?thesis
    using assms
    by (auto simp: convert_contributor_to_category_def category_body_def getitem_setitem
        split: option.splits sum.splits)
qed

lemma pipeline_setitem:
  assumes "c \<notin> config_columns cfg" "has_column df c"
  shows "convert_recipes_for_univariate lib (setitem df c s) (Some cfg)
           = map_sum id (\<lambda>d. setitem d c s) (convert_recipes_for_univariate lib df (Some cfg))"
proof -
  have c1: "c \<notin> set (list_like_cols cfg)" and c2: "c \<noteq> nutrition_col cfg"
    and c2': "c \<notin> set NUTRITION_COLS" and c3: "c \<noteq> temporal_col cfg"
    and c4: "c \<noteq> contributor_col cfg"
    and c3': "add_temporal_parts cfg \<Longrightarrow> c \<notin> set (temporal_parts cfg) \<inter> set PART_NAMES"
    using assms(1) by (simp_all add: config_columns_def)
  note e1 = list_like_setitem [OF c1 assms(2), of lib s]
  show ?thesis
  proof (cases "convert_list_like_columns lib df (list_like_cols cfg)")
    case (Inl e)
    with e1 show ?thesis by (simp add: convert_recipes_for_univariate_def)
  next
    case s1: (Inr df1)
    have l1: "list_like_loop lib (list_like_cols cfg) df = (None, df1)"
      using s1 by (simp add: convert_list_like_columns_def returned_Inr_iff)
    have h1: "has_column df1 c"
      using list_like_loop_colnames [OF l1] assms(2) by (simp add: has_column_colnames)
    define step2 where "step2 d = (if has_column d (nutrition_col cfg)
                    then split_nutrition_columns lib d (nutrition_col cfg) NUTRITION_COLS
                           (drop_original_nutrition cfg)
                    else Inr d)" for d
    have e2: "step2 (setitem df1 c s) = map_sum id (\<lambda>d. setitem d c s) (step2 df1)"
      using split_setitem [OF c2 c2' h1, of lib s "drop_original_nutrition cfg"] c2
      by (simp add: step2_def has_column_setitem)
    have lhs: "convert_recipes_for_univariate lib (setitem df c s) (Some cfg) =
        (case step2 (setitem df1 c s) of
                Inl e \<Rightarrow> Inl e
              | Inr df2 \<Rightarrow>
                  (case convert_temporal_columns lib df2 (temporal_col cfg)
                          (add_temporal_parts cfg) (temporal_parts cfg) of
                     Inl e \<Rightarrow> Inl e
                   | Inr df3 \<Rightarrow> convert_contributor_to_category lib df3 (contributor_col cfg)))"
      using e1 s1 by (simp add: convert_recipes_for_univariate_def step2_def)
    have rhs: "convert_recipes_for_univariate lib df (Some cfg) =
        (case step2 df1 of
                Inl e \<Rightarrow> Inl e
              | Inr df2 \<Rightarrow>
                  (case convert_temporal_columns lib df2 (temporal_col cfg)
                          (add_temporal_parts cfg) (temporal_parts cfg) of
                     Inl e \<Rightarrow> Inl e
                   | Inr df3 \<Rightarrow> convert_contributor_to_category lib df3 (contributor_col cfg)))"
      using s1 by (simp add: convert_recipes_for_univariate_def step2_def)
    show ?thesis
    proof (cases "step2 df1")
      case (Inl e)
      with lhs rhs e2 show ?thesis by simp
    next
      case s2: (Inr df2)
      have "getitem df2 c = getitem df1 c"
      proof (cases "has_column df1 (nutrition_col cfg)")
        case True
        with s2 have sp: "split_nutrition_columns lib df1 (nutrition_col cfg) NUTRITION_COLS
             (drop_original_nutrition cfg) = Inr df2" by (simp add: step2_def)
        show ?thesis using split_frame [OF sp c2'] c2 by simp
      next
        case False
        with s2 show ?thesis by (simp add: step2_def)
      qed
      then have h2: "has_column df2 c" using h1 has_column_getitem_eq [of df2 c df1] by simp
      note e3 = temporal_setitem [OF c3 c3' h2, where lib = lib and s = s]
      show ?thesis
      proof (cases "convert_temporal_columns lib df2 (temporal_col cfg)
                          (add_temporal_parts cfg) (temporal_parts cfg)")
        case (Inl e)
        with lhs rhs e2 s2 e3 show ?thesis by simp
      next
        case s3: (Inr df3)
        have l3: "temporal_body lib df2 (temporal_col cfg) (add_temporal_parts cfg)
            (temporal_parts cfg) = (None, df3)"
          using s3 by (simp add: convert_temporal_columns_def returned_Inr_iff)
        have "getitem (snd (temporal_body lib df2 (temporal_col cfg) (add_temporal_parts cfg)
            (temporal_parts cfg))) c = getitem df2 c"
          using c3 c3' by (rule temporal_body_frame')
        then have h3: "has_column df3 c" using l3 h2 has_column_getitem_eq [of df3 c df2] by simp
        note e4 = category_setitem [OF c4 h3, of lib s]
        show ?thesis using lhs rhs e2 s2 e3 s3 e4 by simp
      qed
    qed
  qed
qed

subsection \<open>The store\<close>

lemma unchanged_refl [simp]: "unchanged h h"
  by (simp add: unchanged_def)

lemma unchanged_length: "unchanged h h' \<Longrightarrow> length h \<le> length h'"
proof -
  assume "unchanged h h'"
  then have "length (take (length h) h') = length h" by (simp add: unchanged_def)
  then show ?thesis by simp
qed

lemma unchanged_trans: "unchanged h h1 \<Longrightarrow> unchanged h1 h2 \<Longrightarrow> unchanged h h2"
proof -
  assume a: "unchanged h h1" and b: "unchanged h1 h2"
  have "take (length h) h2 = take (length h) (take (length h1) h2)"
    using unchanged_length [OF a] by (simp add: min_def)
  also have "\<dots> = h" using a b by (simp add: unchanged_def)
  finally show ?thesis by (simp add: unchanged_def)
qed

lemma unchanged_nth: "unchanged h h' \<Longrightarrow> a < length h \<Longrightarrow> h' ! a = h ! a"
proof -
  assume u: "unchanged h h'" and a: "a < length h"
  have "take (length h) h' ! a = h' ! a" using a by simp
  with u show ?thesis by (simp add: unchanged_def)
qed

lemma unchanged_append [simp]: "unchanged h (h @ xs)"
  by (simp add: unchanged_def)

lemma unchanged_update: "unchanged h h1 \<Longrightarrow> length h \<le> a \<Longrightarrow> unchanged h (h1[a := x])"
  by (simp add: unchanged_def)

lemma assign_st_unchanged:
  "length h \<le> r \<Longrightarrow> unchanged h h1 \<Longrightarrow> unchanged h (snd (assign_st r body h1))"
  by (simp add: assign_st_def unchanged_update)

lemma assign_st_fresh:
  "length h \<le> r \<Longrightarrow> r < length h1 \<Longrightarrow> fresh_result h (assign_st r body h1)"
  by (simp add: assign_st_def fresh_result_def split: option.splits)

lemma list_like_st_frame:
  "unchanged h (snd (convert_list_like_columns_st lib r cols h))
   \<and> fresh_result h (convert_list_like_columns_st lib r cols h)"
  by (simp add: convert_list_like_columns_st_def copy_st_def new_frame_def
      assign_st_unchanged assign_st_fresh)

lemma temporal_st_frame:
  "unchanged h (snd (convert_temporal_columns_st lib r c a ps h))
   \<and> fresh_result h (convert_temporal_columns_st lib r c a ps h)"
  by (simp add: convert_temporal_columns_st_def copy_st_def new_frame_def
      assign_st_unchanged assign_st_fresh)

lemma category_st_frame:
  "unchanged h (snd (convert_contributor_to_category_st lib r c h))
   \<and> fresh_result h (convert_contributor_to_category_st lib r c h)"
  by (simp add: convert_contributor_to_category_st_def copy_st_def new_frame_def
      assign_st_unchanged assign_st_fresh)

lemma split_st_frame:
  "unchanged h (snd (split_nutrition_columns_st lib r c out d h))
   \<and> fresh_result h (split_nutrition_columns_st lib r c out d h)"
proof (cases "getitem ((h @ [h ! r]) ! length h) c")
  case None
  then show ?thesis
    by (simp add: split_nutrition_columns_st_def copy_st_def new_frame_def fresh_result_def)
next
  case (Some s)
  show ?thesis
  proof (cases "apply_series (ensure_list_or_none lib) s")
    case (Inl e)
    with Some show ?thesis
      by (simp add: split_nutrition_columns_st_def copy_st_def new_frame_def fresh_result_def)
  next
    case (Inr lsts)
    with Some show ?thesis
      by (simp add: split_nutrition_columns_st_def copy_st_def new_frame_def fresh_result_def
          unchanged_def Let_def)
  qed
qed

lemma pipeline_st_frame:
  "unchanged h (snd (convert_recipes_for_univariate_st lib r config h))
   \<and> fresh_result h (convert_recipes_for_univariate_st lib r config h)"
proof -
  define cfg where "cfg = (case config of None \<Rightarrow> default_config | Some c \<Rightarrow> c)"
  define h0 where "h0 = h @ [h ! r]"
  have u0: "unchanged h h0" by (simp add: h0_def)
  obtain res1 h1 where s1: "convert_list_like_columns_st lib (length h) (list_like_cols cfg) h0 = (res1, h1)"
    by (cases "convert_list_like_columns_st lib (length h) (list_like_cols cfg) h0")
  have f1: "unchanged h0 h1" "fresh_result h0 (res1, h1)"
    using list_like_st_frame [of h0 lib "length h" "list_like_cols cfg"] s1 by simp_all
  have u1: "unchanged h h1" using u0 f1(1) by (rule unchanged_trans)
  have unfold:
    "convert_recipes_for_univariate_st lib r config h =
       (case (res1, h1) of
          (Inl e, h1) \<Rightarrow> (Inl e, h1)
        | (Inr df1, h1) \<Rightarrow>
            (case (if has_column (h1 ! df1) (nutrition_col cfg)
                   then split_nutrition_columns_st lib df1 (nutrition_col cfg)
                          NUTRITION_COLS (drop_original_nutrition cfg) h1
                   else (Inr df1, h1)) of
               (Inl e, h2) \<Rightarrow> (Inl e, h2)
             | (Inr df2, h2) \<Rightarrow>
                 (case convert_temporal_columns_st lib df2 (temporal_col cfg)
                         (add_temporal_parts cfg) (temporal_parts cfg) h2 of
                    (Inl e, h3) \<Rightarrow> (Inl e, h3)
                  | (Inr df3, h3) \<Rightarrow>
                      convert_contributor_to_category_st lib df3 (contributor_col cfg) h3)))"
    by (simp add: convert_recipes_for_univariate_st_def copy_st_def new_frame_def
        cfg_def [symmetric] h0_def [symmetric] s1 Let_def)
  show ?thesis
  proof (cases res1)
    case (Inl e)
    with unfold u1 show ?thesis by (simp add: fresh_result_def)
  next
    case (Inr df1)
    define step2 where "step2 = (if has_column (h1 ! df1) (nutrition_col cfg)
                   then split_nutrition_columns_st lib df1 (nutrition_col cfg)
                          NUTRITION_COLS (drop_original_nutrition cfg) h1
                   else (Inr df1, h1))"
    obtain res2 h2 where s2: "step2 = (res2, h2)" by (cases step2)
    have u12: "unchanged h1 h2"
      using split_st_frame [of h1 lib df1 "nutrition_col cfg" NUTRITION_COLS "drop_original_nutrition cfg"] s2
      by (auto simp: step2_def split: if_splits)
    have u2: "unchanged h h2" using u1 u12 by (rule unchanged_trans)
    show ?thesis
    proof (cases res2)
      case (Inl e)
      with unfold Inr s2 u2 show ?thesis by (simp add: step2_def [symmetric] fresh_result_def)
    next
      case df2: (Inr df2)
      obtain res3 h3 where s3: "convert_temporal_columns_st lib df2 (temporal_col cfg)
                         (add_temporal_parts cfg) (temporal_parts cfg) h2 = (res3, h3)"
        by (cases "convert_temporal_columns_st lib df2 (temporal_col cfg)
                         (add_temporal_parts cfg) (temporal_parts cfg) h2")
      have u23: "unchanged h2 h3"
        using temporal_st_frame [of h2 lib df2 "temporal_col cfg" "add_temporal_parts cfg" "temporal_parts cfg"] s3
        by simp
      have u3: "unchanged h h3" using u2 u23 by (rule unchanged_trans)
      show ?thesis
      proof (cases res3)
        case (Inl e)
        with unfold Inr s2 df2 s3 u3 show ?thesis
          by (simp add: step2_def [symmetric] fresh_result_def)
      next
        case df3: (Inr df3)
        have eq: "convert_recipes_for_univariate_st lib r config h =
                    convert_contributor_to_category_st lib df3 (contributor_col cfg) h3"
          using unfold Inr s2 df2 s3 df3 by (simp add: step2_def [symmetric])
        have c: "unchanged h3 (snd (convert_contributor_to_category_st lib df3 (contributor_col cfg) h3))"
          "fresh_result h3 (convert_contributor_to_category_st lib df3 (contributor_col cfg) h3)"
          using category_st_frame [of h3 lib df3 "contributor_col cfg"] by simp_all
        have "unchanged h (snd (convert_contributor_to_category_st lib df3 (contributor_col cfg) h3))"
          using u3 c(1) by (rule unchanged_trans)
        moreover have "fresh_result h (convert_contributor_to_category_st lib df3 (contributor_col cfg) h3)"
          using c(2) unchanged_length [OF u3] by (auto simp: fresh_result_def split: sum.splits)
        ultimately show ?thesis using eq by simp
      qed
    qed
  qed
qed

lemma value_of_assign_st:
  "r < length h1 \<Longrightarrow> value_of (assign_st r body h1) = returned body"
  by (simp add: value_of_def assign_st_def returned_def split: option.splits)

lemma value_of_list_like_st:
  "value_of (convert_list_like_columns_st lib r cols h) = convert_list_like_columns lib (h ! r) cols"
  by (simp add: convert_list_like_columns_st_def copy_st_def new_frame_def value_of_assign_st
      convert_list_like_columns_def)

lemma value_of_temporal_st:
  "value_of (convert_temporal_columns_st lib r c a ps h) = convert_temporal_columns lib (h ! r) c a ps"
  by (simp add: convert_temporal_columns_st_def copy_st_def new_frame_def value_of_assign_st
      convert_temporal_columns_def)

lemma value_of_category_st:
  "value_of (convert_contributor_to_category_st lib r c h) = convert_contributor_to_category lib (h ! r) c"
  by (simp add: convert_contributor_to_category_st_def copy_st_def new_frame_def value_of_assign_st
      convert_contributor_to_category_def)

lemma value_of_split_st:
  "value_of (split_nutrition_columns_st lib r c out d h) = split_nutrition_columns lib (h ! r) c out d"
proof (cases "getitem (h ! r) c")
  case None
  then show ?thesis
    by (simp add: split_nutrition_columns_st_def split_nutrition_columns_def copy_st_def
        new_frame_def value_of_def)
next
  case (Some s)
  show ?thesis
  proof (cases "apply_series (ensure_list_or_none lib) s")
    case (Inl e)
    with Some show ?thesis
      by (simp add: split_nutrition_columns_st_def split_nutrition_columns_def copy_st_def
          new_frame_def value_of_def)
  next
    case (Inr lsts)
    with Some show ?thesis
      by (simp add: split_nutrition_columns_st_def split_nutrition_columns_def copy_st_def
          new_frame_def value_of_def Let_def nth_append concat_axis1_def)
  qed
qed

lemma value_of_cases:
  assumes "value_of (res, h') = v"
  obtains (raised) e where "res = Inl e" "v = Inl e"
  | (returned) r' where "res = Inr r'" "v = Inr (h' ! r')"
  using assms by (cases res) (auto simp: value_of_def)

lemma value_of_pipeline_st:
  "value_of (convert_recipes_for_univariate_st lib r config h) =
     convert_recipes_for_univariate lib (h ! r) config"
proof -
  define cfg where "cfg = (case config of None \<Rightarrow> default_config | Some c \<Rightarrow> c)"
  define h0 where "h0 = h @ [h ! r]"
  have h0r: "h0 ! length h = h ! r" by (simp add: h0_def)
  obtain res1 h1 where s1: "convert_list_like_columns_st lib (length h) (list_like_cols cfg) h0 = (res1, h1)"
    by (cases "convert_list_like_columns_st lib (length h) (list_like_cols cfg) h0")
  have v1: "value_of (res1, h1) = convert_list_like_columns lib (h ! r) (list_like_cols cfg)"
    using value_of_list_like_st [of lib "length h" "list_like_cols cfg" h0] s1 h0r by simp
  have lhs:
    "convert_recipes_for_univariate_st lib r config h =
       (case (res1, h1) of
          (Inl e, h1) \<Rightarrow> (Inl e, h1)
        | (Inr df1, h1) \<Rightarrow>
            (case (if has_column (h1 ! df1) (nutrition_col cfg)
                   then split_nutrition_columns_st lib df1 (nutrition_col cfg)
                          NUTRITION_COLS (drop_original_nutrition cfg) h1
                   else (Inr df1, h1)) of
               (Inl e, h2) \<Rightarrow> (Inl e, h2)
             | (Inr df2, h2) \<Rightarrow>
                 (case convert_temporal_columns_st lib df2 (temporal_col cfg)
                         (add_temporal_parts cfg) (temporal_parts cfg) h2 of
                    (Inl e, h3) \<Rightarrow> (Inl e, h3)
                  | (Inr df3, h3) \<Rightarrow>
                      convert_contributor_to_category_st lib df3 (contributor_col cfg) h3)))"
    by (simp add: convert_recipes_for_univariate_st_def copy_st_def new_frame_def
        cfg_def [symmetric] h0_def [symmetric] s1 Let_def)
  have rhs:
    "convert_recipes_for_univariate lib (h ! r) config =
       (case convert_list_like_columns lib (h ! r) (list_like_cols cfg) of
           Inl e \<Rightarrow> Inl e
         | Inr df1 \<Rightarrow>
             (case (if has_column df1 (nutrition_col cfg)
                    then split_nutrition_columns lib df1 (nutrition_col cfg) NUTRITION_COLS
                           (drop_original_nutrition cfg)
                    else Inr df1) of
                Inl e \<Rightarrow> Inl e
              | Inr df2 \<Rightarrow>
                  (case convert_temporal_columns lib df2 (temporal_col cfg)
                          (add_temporal_parts cfg) (temporal_parts cfg) of
                     Inl e \<Rightarrow> Inl e
                   | Inr df3 \<Rightarrow> convert_contributor_to_category lib df3 (contributor_col cfg))))"
    by (simp add: convert_recipes_for_univariate_def cfg_def [symmetric] Let_def)
  from v1 show ?thesis
  proof (cases rule: value_of_cases)
    case (raised e)
    with lhs rhs show ?thesis by (simp add: value_of_def)
  next
    case r1: (returned df1)
    define step2 where "step2 = (if has_column (h1 ! df1) (nutrition_col cfg)
                   then split_nutrition_columns_st lib df1 (nutrition_col cfg)
                          NUTRITION_COLS (drop_original_nutrition cfg) h1
                   else (Inr df1, h1))"
    obtain res2 h2 where s2: "step2 = (res2, h2)" by (cases step2)
    have v2: "value_of (res2, h2) =
        (if has_column (h1 ! df1) (nutrition_col cfg)
         then split_nutrition_columns lib (h1 ! df1) (nutrition_col cfg) NUTRITION_COLS
                (drop_original_nutrition cfg)
         else Inr (h1 ! df1))"
    proof (cases "has_column (h1 ! df1) (nutrition_col cfg)")
      case True
      then have "split_nutrition_columns_st lib df1 (nutrition_col cfg) NUTRITION_COLS
          (drop_original_nutrition cfg) h1 = (res2, h2)"
        using s2 by (simp add: step2_def)
      then show ?thesis
        using True value_of_split_st [of lib df1 "nutrition_col cfg" NUTRITION_COLS
          "drop_original_nutrition cfg" h1] by simp
    next
      case False
      then show ?thesis using s2 by (auto simp: step2_def value_of_def)
    qed
    from v2 show ?thesis
    proof (cases rule: value_of_cases)
      case (raised e)
      with lhs rhs r1 s2 show ?thesis
        by (simp add: value_of_def step2_def [symmetric])
    next
      case r2: (returned df2)
      obtain res3 h3 where s3: "convert_temporal_columns_st lib df2 (temporal_col cfg)
                         (add_temporal_parts cfg) (temporal_parts cfg) h2 = (res3, h3)"
        by (cases "convert_temporal_columns_st lib df2 (temporal_col cfg)
                         (add_temporal_parts cfg) (temporal_parts cfg) h2")
      have v3: "value_of (res3, h3) = convert_temporal_columns lib (h2 ! df2) (temporal_col cfg)
                         (add_temporal_parts cfg) (temporal_parts cfg)"
        using value_of_temporal_st [of lib df2 "temporal_col cfg" "add_temporal_parts cfg"
            "temporal_parts cfg" h2] s3 by simp
      from v3 show ?thesis
      proof (cases rule: value_of_cases)
        case (raised e)
        with lhs rhs r1 s2 r2 s3 show ?thesis
          by (simp add: value_of_def step2_def [symmetric])
      next
        case r3: (returned df3)
        with lhs rhs r1 s2 r2 s3 show ?thesis
          by (simp add: step2_def [symmetric] value_of_category_st)
      qed
    qed
  qed
qed

lemma leaves_inputI:
  "r < length h \<Longrightarrow> unchanged h (snd res) \<and> fresh_result h res \<Longrightarrow> leaves_input r h res"
  by (auto simp: leaves_input_def fresh_result_def unchanged_nth split: sum.splits)

subsection \<open>Evaluation\<close>

lemmas eval_defs = getitem_def setitem_def has_column_def concat_axis1_def drop_column_def
  apply_series_def ensure_list_or_none_def safe_literal_eval_def
  convert_list_like_columns_def returned_def frame_of_rows_def split_nutrition_columns_def
  to_datetime_def series_of_def part_series_def dt_part_def add_part_def temporal_body_def
  convert_temporal_columns_def astype_category_def category_body_def
  convert_contributor_to_category_def
  default_config_def convert_recipes_for_univariate_def NUTRITION_COLS_def DEFAULT_LIST_LIKE_COLS_def

section \<open>The claims\<close>

subsection \<open>Running the pipeline on its own output\<close>

text \<open>
  C1: for every table and configuration, running the pipeline on its own output gives that
  output again. The module's header announces an idempotent pipeline, but the code does not
  deliver it: with the default configuration the nutrition column is kept next to the seven
  columns split from it, so the second run finds the seven names taken and raises the name
  collision. Evaluated on a one-row table whose nutrition cell is missing: the first run
  returns the table with the seven columns added, the second run, on that result, raises,
  whatever the library makes of the seven new columns.
\<close>

theorem pipeline_second_run_raises:
  "(\<exists>d. convert_recipes_for_univariate lib recipes_missing None = Inr d
        \<and> convert_recipes_for_univariate lib d None = Inl (NameCollision NUTRITION_COLS))
   \<and> convert_recipes_for_univariate sample_lib recipes_missing None
       = Inr recipes_missing_converted
   \<and> convert_recipes_for_univariate lib recipes_missing_converted None
       = Inl (NameCollision NUTRITION_COLS)"
  by (simp add: eval_defs recipes_missing_def recipes_missing_converted_def sample_lib_def
      sample_column_def upt_rec [of _ "numeral _"] upt_rec [of _ "Suc _"])

subsection \<open>What raises\<close>

text \<open>
  C2: the splitter raises exactly when the source column is present and an output name is
  taken, and nothing else in the pipeline raises. The code raises in other cases too. On a
  nutrition cell that is a Python list of seven numbers, \<^verbatim>\<open>if pd.isna(x)\<close> asks for the
  truth value of an array of seven bools; the pipeline meets this on the raw table, whose
  nutrition cell is a string, because its list parser has made the cell a list before the
  splitter runs. On a nutrition cell holding the string \<^verbatim>\<open>{[1]: 2}\<close>,
  \<^verbatim>\<open>ast.literal_eval\<close> raises a \<^verbatim>\<open>TypeError\<close>, which \<^verbatim>\<open>_safe_literal_eval\<close> does not
  catch. In the three tables no output name is taken.
\<close>

theorem split_raises_without_collision:
  "filter (has_column recipes_native) NUTRITION_COLS = []
   \<and> split_nutrition_columns lib recipes_native ''nutrition'' NUTRITION_COLS False
       = Inl (Raised ValueError)
   \<and> filter (has_column recipes_encoded) NUTRITION_COLS = []
   \<and> convert_recipes_for_univariate sample_lib recipes_encoded None = Inl (Raised ValueError)
   \<and> filter (has_column recipes_dictkey) NUTRITION_COLS = []
   \<and> split_nutrition_columns sample_lib recipes_dictkey ''nutrition'' NUTRITION_COLS False
       = Inl (Raised TypeError)"
  by (simp add: eval_defs recipes_dictkey_def recipes_native_def recipes_encoded_def sample_lib_def
      sample_literal_eval_def)

subsection \<open>Lists in cells\<close>

text \<open>
  C3: the splitter turns every nutrition cell into seven columns, entry by entry. It does
  so for a cell that holds the list as a string. On a cell that is a Python list of seven
  numbers it raises instead: \<^verbatim>\<open>_ensure_list_or_none\<close> tests \<^verbatim>\<open>pd.isna(x)\<close> before
  \<^verbatim>\<open>isinstance(x, list)\<close>. The pipeline meets this on the raw data: its first stage
  parses the string into such a list, and its second stage raises on it.
\<close>

theorem split_native_list_raises:
  "split_nutrition_columns lib recipes_native ''nutrition'' NUTRITION_COLS False
     = Inl (Raised ValueError)
   \<and> split_nutrition_columns sample_lib recipes_encoded ''nutrition'' NUTRITION_COLS False
       = Inr recipes_encoded_split
   \<and> convert_list_like_columns sample_lib recipes_encoded DEFAULT_LIST_LIKE_COLS
       = Inr recipes_native
   \<and> convert_recipes_for_univariate sample_lib recipes_encoded None = Inl (Raised ValueError)"
  by (simp add: eval_defs recipes_native_def recipes_encoded_def recipes_encoded_split_def
      sample_lib_def sample_literal_eval_def sample_column_def
      upt_rec [of _ "numeral _"] upt_rec [of _ "Suc _"])

text \<open>
  C4: the list parser keeps a cell that is already a list, and swallows every parse
  failure. A cell that is a list of two strings makes the parser raise; a list holding one
  \<^verbatim>\<open>NaN\<close> is replaced by \<^verbatim>\<open>None\<close>; and the \<^verbatim>\<open>TypeError\<close> of \<^verbatim>\<open>ast.literal_eval\<close>
  on \<^verbatim>\<open>{[1]: 2}\<close> is not swallowed.
\<close>

theorem list_parser_native_list_raises:
  "convert_list_like_columns lib recipes_tags DEFAULT_LIST_LIKE_COLS = Inl (Raised ValueError)
   \<and> ensure_list_or_none lib (PList [AStr ''desserts'', AStr ''easy'']) = Inl (Raised ValueError)
   \<and> ensure_list_or_none lib (PList [ANaN]) = Inr (Atom ANone)
   \<and> ensure_list_or_none sample_lib (Atom (AStr ''{[1]: 2}'')) = Inl (Raised TypeError)"
  by (simp add: eval_defs recipes_tags_def sample_lib_def sample_literal_eval_def)

subsection \<open>Dates\<close>




subsection \<open>Missing source columns\<close>

text \<open>
  C6: a stage whose source column is absent returns its input. The list parser is given
  several names: it skips those that are not columns of the table, and returns its input
  when none of them is. The other three stages have one source column each.
\<close>

theorem missing_source_column_is_noop:
  "convert_list_like_columns lib df cols
     = convert_list_like_columns lib df (filter (has_column df) cols)
   \<and> ((\<forall>c \<in> set cols. \<not> has_column df c) \<longrightarrow> convert_list_like_columns lib df cols = Inr df)
   \<and> (\<not> has_column df src \<longrightarrow> split_nutrition_columns lib df src outs dropit = Inr df)
   \<and> (\<not> has_column df tcol \<longrightarrow> convert_temporal_columns lib df tcol addp parts = Inr df)
   \<and> (\<not> has_column df ccol \<longrightarrow> convert_contributor_to_category lib df ccol = Inr df)"
  using list_like_loop_skip [of lib cols df]
  by (simp add: convert_list_like_columns_def list_like_loop_absent split_absent temporal_absent
      category_absent)

theorem missing_source_column_is_noop_witness:
  "list_all (\<lambda>c. \<not> has_column recipes_calories c) DEFAULT_LIST_LIKE_COLS
   \<and> \<not> has_column recipes_calories ''submitted''
   \<and> \<not> has_column recipes_calories ''contributor_id''
   \<and> convert_list_like_columns sample_lib recipes_calories DEFAULT_LIST_LIKE_COLS
       = Inr recipes_calories
   \<and> split_nutrition_columns sample_lib recipes_calories ''nutrition'' NUTRITION_COLS False
       = Inr recipes_calories
   \<and> convert_temporal_columns sample_lib recipes_calories ''submitted'' True [''year'', ''month'']
       = Inr recipes_calories
   \<and> convert_contributor_to_category sample_lib recipes_calories ''contributor_id''
       = Inr recipes_calories"
  using missing_source_column_is_noop
          [where cols = DEFAULT_LIST_LIKE_COLS and df = recipes_calories and lib = sample_lib
             and src = "''nutrition''" and outs = NUTRITION_COLS and dropit = False
             and tcol = "''submitted''" and addp = True and parts = "[''year'', ''month'']"
             and ccol = "''contributor_id''"]
  by (simp add: has_column_def recipes_calories_def DEFAULT_LIST_LIKE_COLS_def
      convert_list_like_columns_def)

subsection \<open>The caller's table\<close>

text \<open>
  C7: no stage and no pipeline run changes its input table; each returns a new table; the
  input is also intact when the splitter raises the name collision. In the store, every
  object that existed before the call is unchanged after it, whether the call returns or
  raises, and a returned reference is to an object allocated during the call. The table
  such a reference leads to, or the exception, is the one the functions on tables compute.
\<close>

theorem input_table_never_mutated:
  assumes "r < length h"
  shows "leaves_input r h (convert_list_like_columns_st lib r cols h)
       \<and> leaves_input r h (split_nutrition_columns_st lib r src outs dropit h)
       \<and> leaves_input r h (convert_temporal_columns_st lib r tcol addp parts h)
       \<and> leaves_input r h (convert_contributor_to_category_st lib r ccol h)
       \<and> leaves_input r h (convert_recipes_for_univariate_st lib r config h)
       \<and> value_of (convert_list_like_columns_st lib r cols h)
           = convert_list_like_columns lib (h ! r) cols
       \<and> value_of (split_nutrition_columns_st lib r src outs dropit h)
           = split_nutrition_columns lib (h ! r) src outs dropit
       \<and> value_of (convert_temporal_columns_st lib r tcol addp parts h)
           = convert_temporal_columns lib (h ! r) tcol addp parts
       \<and> value_of (convert_contributor_to_category_st lib r ccol h)
           = convert_contributor_to_category lib (h ! r) ccol
       \<and> value_of (convert_recipes_for_univariate_st lib r config h)
           = convert_recipes_for_univariate lib (h ! r) config"
  using assms
  by (simp add: leaves_inputI list_like_st_frame split_st_frame temporal_st_frame
      category_st_frame pipeline_st_frame value_of_list_like_st value_of_split_st
      value_of_temporal_st value_of_category_st value_of_pipeline_st)

theorem input_table_never_mutated_witness:
  "(0::nat) < length [recipes_missing_converted]
   \<and> value_of (split_nutrition_columns_st sample_lib 0 ''nutrition'' NUTRITION_COLS False
                  [recipes_missing_converted]) = Inl (NameCollision NUTRITION_COLS)
   \<and> leaves_input 0 [recipes_missing_converted]
        (split_nutrition_columns_st sample_lib 0 ''nutrition'' NUTRITION_COLS False
           [recipes_missing_converted])
   \<and> value_of (convert_recipes_for_univariate_st sample_lib 0 None [recipes_missing])
       = Inr recipes_missing_converted
   \<and> leaves_input 0 [recipes_missing]
        (convert_recipes_for_univariate_st sample_lib 0 None [recipes_missing])"
proof -
  have a: "split_nutrition_columns sample_lib recipes_missing_converted ''nutrition''
             NUTRITION_COLS False = Inl (NameCollision NUTRITION_COLS)"
    by (simp add: eval_defs recipes_missing_converted_def)
  have b: "convert_recipes_for_univariate sample_lib recipes_missing None
             = Inr recipes_missing_converted"
    by (simp add: eval_defs recipes_missing_def recipes_missing_converted_def sample_lib_def
        sample_column_def upt_rec [of _ "numeral _"] upt_rec [of _ "Suc _"])
  show ?thesis
    using a b
      input_table_never_mutated [where r = 0 and h = "[recipes_missing_converted]"
        and lib = sample_lib and src = "''nutrition''" and outs = NUTRITION_COLS
        and dropit = False]
      input_table_never_mutated [where r = 0 and h = "[recipes_missing]"
        and lib = sample_lib and config = None]
    by simp
qed

subsection \<open>Rows\<close>



subsection \<open>The configuration\<close>

text \<open>
  C9 as the spec states it (the configuration exposes every listed setting, the names of
  the seven nutrition columns among them) fails: the configuration record has no field for
  these names, and the pipeline always passes the constant \<open>NUTRITION_COLS\<close> to the
  splitter. So no configuration at all makes the pipeline return a table with a nutrition
  column under another name, say \<^verbatim>\<open>kcal\<close>.
\<close>

theorem config_has_no_output_names_setting:
  "\<not> (\<exists>cfg d. convert_recipes_for_univariate sample_lib recipes_missing (Some cfg) = Inr d
         \<and> has_column d ''kcal'')"
proof
  assume "\<exists>cfg d. convert_recipes_for_univariate sample_lib recipes_missing (Some cfg) = Inr d
         \<and> has_column d ''kcal''"
  then obtain cfg d where r: "convert_recipes_for_univariate sample_lib recipes_missing (Some cfg) = Inr d"
    and k: "has_column d ''kcal''" by blast
  have "''kcal'' \<in> set (colnames recipes_missing) \<union> set NUTRITION_COLS \<union> set PART_NAMES"
    using pipeline_columns(1) [OF r] k by (auto simp: has_column_colnames split: if_splits)
  then show False
    by (simp add: colnames_def recipes_missing_def NUTRITION_COLS_def PART_NAMES_def)
qed

text \<open>
  C9, amended. The configuration record has seven fields with the defaults below, and
  passing no configuration means the default one. The names of the seven nutrition columns
  are not a setting: whatever the configuration, the pipeline is the four stages one after
  the other, each called with the configured values, and the splitter with the fixed seven
  names in their fixed order. Together with these names the configured values determine
  the columns the pipeline works on. When the pipeline returns on a well-formed table, the
  column names of the result, in order, are \<open>pipeline_colnames\<close> of the configuration and
  the column names of the input: the input's names, then the seven nutrition names if the
  nutrition column is there, without the nutrition column if it is to be dropped, then the
  requested parts that are not column names yet, in the order year, month, day, dayofweek,
  if the temporal column is there and parts are to be added. A column that the
  configuration does not name (\<open>config_columns\<close>) is returned as it was, and replacing the
  cells of such a column in the input changes nothing in the outcome but that column.
\<close>

theorem config_determines_columns:
  "list_like_cols default_config = [''tags'', ''ingredients'', ''steps'', ''nutrition'']
   \<and> nutrition_col default_config = ''nutrition''
   \<and> temporal_col default_config = ''submitted''
   \<and> add_temporal_parts default_config = True
   \<and> temporal_parts default_config = [''year'', ''month'']
   \<and> contributor_col default_config = ''contributor_id''
   \<and> drop_original_nutrition default_config = False
   \<and> convert_recipes_for_univariate lib df None
       = convert_recipes_for_univariate lib df (Some default_config)
   \<and> convert_recipes_for_univariate lib df (Some cfg) =
       (case convert_list_like_columns lib df (list_like_cols cfg) of
          Inl e \<Rightarrow> Inl e
        | Inr df1 \<Rightarrow>
            (case (if has_column df1 (nutrition_col cfg)
                   then split_nutrition_columns lib df1 (nutrition_col cfg)
                          [''calories'', ''total_fat'', ''sugar'', ''sodium'', ''protein'',
                           ''saturated_fat'', ''carbohydrates'']
                          (drop_original_nutrition cfg)
                   else Inr df1) of
               Inl e \<Rightarrow> Inl e
             | Inr df2 \<Rightarrow>
                 (case convert_temporal_columns lib df2 (temporal_col cfg)
                         (add_temporal_parts cfg) (temporal_parts cfg) of
                    Inl e \<Rightarrow> Inl e
                  | Inr df3 \<Rightarrow> convert_contributor_to_category lib df3 (contributor_col cfg))))
   \<and> (well_formed df \<and> convert_recipes_for_univariate lib df (Some cfg) = Inr df' \<longrightarrow>
        well_formed df'
        \<and> colnames df' = pipeline_colnames cfg (colnames df)
        \<and> (\<forall>c. c \<notin> config_columns cfg \<longrightarrow> getitem df' c = getitem df c))
   \<and> (well_formed df \<and> c \<notin> config_columns cfg \<and> has_column df c \<longrightarrow>
        convert_recipes_for_univariate lib (setitem df c s) (Some cfg)
          = map_sum id (\<lambda>d. setitem d c s) (convert_recipes_for_univariate lib df (Some cfg)))"
proof -
  have a: "list_like_cols default_config = [''tags'', ''ingredients'', ''steps'', ''nutrition'']"
    "nutrition_col default_config = ''nutrition''"
    "temporal_col default_config = ''submitted''"
    "add_temporal_parts default_config = True"
    "temporal_parts default_config = [''year'', ''month'']"
    "contributor_col default_config = ''contributor_id''"
    "drop_original_nutrition default_config = False"
    by (simp_all add: default_config_def DEFAULT_LIST_LIKE_COLS_def)
  have b: "convert_recipes_for_univariate lib df None
       = convert_recipes_for_univariate lib df (Some default_config)"
    by (simp add: convert_recipes_for_univariate_def)
  have c: "convert_recipes_for_univariate lib df (Some cfg) =
       (case convert_list_like_columns lib df (list_like_cols cfg) of
          Inl e \<Rightarrow> Inl e
        | Inr df1 \<Rightarrow>
            (case (if has_column df1 (nutrition_col cfg)
                   then split_nutrition_columns lib df1 (nutrition_col cfg)
                          [''calories'', ''total_fat'', ''sugar'', ''sodium'', ''protein'',
                           ''saturated_fat'', ''carbohydrates'']
                          (drop_original_nutrition cfg)
                   else Inr df1) of
               Inl e \<Rightarrow> Inl e
             | Inr df2 \<Rightarrow>
                 (case convert_temporal_columns lib df2 (temporal_col cfg)
                         (add_temporal_parts cfg) (temporal_parts cfg) of
                    Inl e \<Rightarrow> Inl e
                  | Inr df3 \<Rightarrow> convert_contributor_to_category lib df3 (contributor_col cfg))))"
    unfolding convert_recipes_for_univariate_def NUTRITION_COLS_def Let_def option.case ..
  have d: "well_formed df \<and> convert_recipes_for_univariate lib df (Some cfg) = Inr df' \<longrightarrow>
        well_formed df'
        \<and> colnames df' = pipeline_colnames cfg (colnames df)
        \<and> (\<forall>c. c \<notin> config_columns cfg \<longrightarrow> getitem df' c = getitem df c)"
  proof
    assume h: "well_formed df \<and> convert_recipes_for_univariate lib df (Some cfg) = Inr df'"
    then have r: "convert_recipes_for_univariate lib df (Some cfg) = Inr df'"
      and w: "rectangular df" "distinct (colnames df)" by (simp_all add: well_formed_def)
    have 1: "well_formed df'"
      using pipeline_rows(1) [OF w(1) r] pipeline_distinct [OF r w(2)] by (simp add: well_formed_def)
    have 2: "colnames df' = pipeline_colnames cfg (colnames df)"
      using r by (rule pipeline_colnames_eq)
    have 3: "getitem df' c = getitem df c" if "c \<notin> config_columns cfg" for c
      using pipeline_columns(2) [OF r that] .
    show "well_formed df'
        \<and> colnames df' = pipeline_colnames cfg (colnames df)
        \<and> (\<forall>c. c \<notin> config_columns cfg \<longrightarrow> getitem df' c = getitem df c)"
      using 1 2 3 by blast
  qed
  have e: "well_formed df \<and> c \<notin> config_columns cfg \<and> has_column df c \<longrightarrow>
        convert_recipes_for_univariate lib (setitem df c s) (Some cfg)
          = map_sum id (\<lambda>d. setitem d c s) (convert_recipes_for_univariate lib df (Some cfg))"
    using pipeline_setitem [of c cfg df lib s] by blast
  show ?thesis by (intro conjI a b c d e)
qed

theorem config_determines_columns_witness:
  "well_formed recipes_sample
   \<and> convert_recipes_for_univariate sample_lib recipes_sample (Some default_config)
     = Inr recipes_sample_converted
   \<and> colnames recipes_sample = [''name'', ''nutrition'', ''submitted'', ''contributor_id'']
   \<and> colnames recipes_sample_converted
       = [''name'', ''nutrition'', ''submitted'', ''contributor_id'', ''calories'', ''total_fat'',
          ''sugar'', ''sodium'', ''protein'', ''saturated_fat'', ''carbohydrates'', ''year'',
          ''month'']
   \<and> convert_recipes_for_univariate sample_lib recipes_sample (Some dropping_config)
     = Inr recipes_sample_dropped
   \<and> colnames recipes_sample_dropped
       = [''name'', ''submitted'', ''contributor_id'', ''calories'', ''total_fat'', ''sugar'',
          ''sodium'', ''protein'', ''saturated_fat'', ''carbohydrates'', ''month'', ''day'']
   \<and> ''name'' \<notin> config_columns default_config
   \<and> getitem recipes_sample_converted ''name'' = getitem recipes_sample ''name''
   \<and> has_column recipes_sample ''name''
   \<and> convert_recipes_for_univariate sample_lib
         (setitem recipes_sample ''name'' (ObjectDtype, [Atom ANone, Atom ANone]))
         (Some default_config)
       = Inr (setitem recipes_sample_converted ''name'' (ObjectDtype, [Atom ANone, Atom ANone]))"
proof -
  have w: "well_formed recipes_sample"
    by (simp add: well_formed_def colnames_def rectangular_def recipes_sample_def)
  have e: "convert_recipes_for_univariate sample_lib recipes_sample (Some default_config)
     = Inr recipes_sample_converted"
    by (simp add: eval_defs recipes_sample_def recipes_sample_converted_def sample_lib_def
        sample_literal_eval_def sample_to_datetime_def sample_column_def
        sample_astype_category_def upt_rec [of _ "numeral _"] upt_rec [of _ "Suc _"])
  have ed: "convert_recipes_for_univariate sample_lib recipes_sample (Some dropping_config)
     = Inr recipes_sample_dropped"
    by (simp add: eval_defs dropping_config_def recipes_sample_def recipes_sample_dropped_def
        sample_lib_def sample_literal_eval_def sample_to_datetime_def sample_column_def
        sample_astype_category_def upt_rec [of _ "numeral _"] upt_rec [of _ "Suc _"])
  have n: "''name'' \<notin> config_columns default_config"
    by (simp add: config_columns_def default_config_def DEFAULT_LIST_LIKE_COLS_def
        NUTRITION_COLS_def PART_NAMES_def)
  have c: "colnames recipes_sample = [''name'', ''nutrition'', ''submitted'', ''contributor_id'']"
    by (simp add: colnames_def recipes_sample_def)
  have p: "pipeline_colnames default_config
             [''name'', ''nutrition'', ''submitted'', ''contributor_id'']
       = [''name'', ''nutrition'', ''submitted'', ''contributor_id'', ''calories'', ''total_fat'',
          ''sugar'', ''sodium'', ''protein'', ''saturated_fat'', ''carbohydrates'', ''year'',
          ''month'']"
    "pipeline_colnames dropping_config
             [''name'', ''nutrition'', ''submitted'', ''contributor_id'']
       = [''name'', ''submitted'', ''contributor_id'', ''calories'', ''total_fat'', ''sugar'',
          ''sodium'', ''protein'', ''saturated_fat'', ''carbohydrates'', ''month'', ''day'']"
    by (simp_all add: pipeline_colnames_def default_config_def dropping_config_def
        NUTRITION_COLS_def PART_NAMES_def DEFAULT_LIST_LIKE_COLS_def)
  have h: "has_column recipes_sample ''name''"
    by (simp add: has_column_def recipes_sample_def)
  show ?thesis
    using w e ed n c p h
      config_determines_columns [where lib = sample_lib and df = recipes_sample
        and cfg = default_config and df' = recipes_sample_converted and c = "''name''"
        and s = "(ObjectDtype, [Atom ANone, Atom ANone])"]
      config_determines_columns [where lib = sample_lib and df = recipes_sample
        and cfg = dropping_config and df' = recipes_sample_dropped]
    by simp
qed

subsection \<open>The collision check and the missing source column\<close>

text \<open>
  C10: the collision check is made only when the source column is present. A table
  without the source column is returned as it is, whatever its other columns are called.
\<close>

theorem split_without_source_skips_collision_check:
  "\<not> has_column df src \<Longrightarrow> split_nutrition_columns lib df src outs dropit = Inr df"
  by (simp add: split_nutrition_columns_def getitem_None_iff [symmetric])

theorem split_without_source_skips_collision_check_witness:
  "\<not> has_column recipes_calories ''nutrition''
   \<and> filter (has_column recipes_calories) NUTRITION_COLS = [''calories'']
   \<and> split_nutrition_columns sample_lib recipes_calories ''nutrition'' NUTRITION_COLS False
       = Inr recipes_calories"
  using split_without_source_skips_collision_check
          [of recipes_calories "''nutrition''" sample_lib NUTRITION_COLS False]
  by (simp add: has_column_def recipes_calories_def NUTRITION_COLS_def)

end
